theory Spec2Isabelle
  imports Complex_Main
begin

section \<open>Python values, errors and arrays\<close>

text \<open>
  The values that \<^verbatim>\<open>fil_finder_2D\<close> (\<^verbatim>\<open>src/fil_finder/filfind_class.py\<close>, Python 2)
  inspects at run time. A Python \<^verbatim>\<open>float\<close> held in a list or an attribute is modelled
  by a real number: rounding and the non-finite floats are outside the model there. Array
  entries do carry NaN, because the constructor tests for it.
\<close>

datatype pyval = PyFloat real | PyInt int | PyStr string | PyNone

datatype error =
    TypeError
  | IndexError
  | KeyError string
  | ZeroDivisionError
  | ValueError
  | EOFError
  | LibraryError

text \<open>
  \<open>LibraryError\<close> stands for whatever a routine outside this file raises when it is
  handed \<^verbatim>\<open>None\<close> in place of an array.
\<close>

datatype npfloat = Num real | PosInf | NegInf | NaN

record ndarray =
  shape :: "nat list"
  elems :: "npfloat list"

text \<open>Sequencing of steps that may raise: the first exception ends the call.\<close>

definition bind_err :: "error + 'a \<Rightarrow> ('a \<Rightarrow> error + 'b) \<Rightarrow> error + 'b" where
  "bind_err m f = (case m of Inl e \<Rightarrow> Inl e | Inr x \<Rightarrow> f x)"

text \<open>
  \<^verbatim>\<open>xs[i]\<close> for \<open>i\<close> drawn from \<^verbatim>\<open>range\<close>: indexing \<^verbatim>\<open>None\<close> is a TypeError, an index
  past the end an IndexError.
\<close>

definition py_getitem :: "'a list option \<Rightarrow> nat \<Rightarrow> error + 'a" where
  "py_getitem xs i =
     (case xs of
        None \<Rightarrow> Inl TypeError
      | Some ys \<Rightarrow> if i < length ys then Inr (ys ! i) else Inl IndexError)"

text \<open>\<^verbatim>\<open>d[k]\<close> on a dictionary.\<close>

definition py_lookup :: "(string \<rightharpoonup> pyval) \<Rightarrow> string \<Rightarrow> error + pyval" where
  "py_lookup d k = (case d k of None \<Rightarrow> Inl (KeyError k) | Some v \<Rightarrow> Inr v)"

text \<open>\<^verbatim>\<open>isinstance(w, float)\<close>.\<close>

fun isinstance_float :: "pyval \<Rightarrow> bool" where
  "isinstance_float (PyFloat x) = True"
| "isinstance_float v = False"

text \<open>
  The number a header value stands for in float arithmetic. Multiplying a string or
  \<^verbatim>\<open>None\<close> by a float, or raising a repeated string to a power, is a TypeError; those
  values give \<open>None\<close> here.
\<close>

fun as_number :: "pyval \<Rightarrow> real option" where
  "as_number (PyFloat x) = Some x"
| "as_number (PyInt n) = Some (of_int n)"
| "as_number v = None"

text \<open>Python 2's \<^verbatim>\<open>round\<close> with one argument: to the nearest integer, halves away from zero.\<close>

definition py_round :: "real \<Rightarrow> real" where
  "py_round x = (if 0 \<le> x then of_int \<lfloor>x + 1 / 2\<rfloor> else of_int \<lceil>x - 1 / 2\<rceil>)"

text \<open>numpy's division of floats: dividing by zero gives an infinity or NaN, not an exception.\<close>

definition np_divide :: "real \<Rightarrow> real \<Rightarrow> npfloat" where
  "np_divide x y =
     (if y = 0 then (if x = 0 then NaN else if 0 < x then PosInf else NegInf)
      else Num (x / y))"

section \<open>The world outside the object\<close>

text \<open>
  Arrays that the object shares with its caller live in a store, addressed by references.
  The console is a list of the lines still to be typed (\<open>stdin\<close>) and the trace of what the
  program has printed, asked and drawn so far (\<open>events\<close>). \<^verbatim>\<open>raw_input\<close> takes the next
  line; when none is left it raises EOFError, so a call that needs a human's answer cannot
  complete on an empty \<open>stdin\<close>.
\<close>

type_synonym ref = nat

datatype event =
    Print string
  | RawInput string
  | Plot string
  | Hist "npfloat list"
  | Show

record world =
  heap :: "ref \<Rightarrow> ndarray"
  next_ref :: ref
  stdin :: "string list"
  events :: "event list"

definition emit :: "event list \<Rightarrow> world \<Rightarrow> world" where
  "emit evs w = w\<lparr>events := events w @ evs\<rparr>"

definition alloc :: "ndarray \<Rightarrow> world \<Rightarrow> ref \<times> world" where
  "alloc a w =
     (next_ref w, w\<lparr>heap := (heap w)(next_ref w := a), next_ref := Suc (next_ref w)\<rparr>)"

definition raw_input :: "string \<Rightarrow> world \<Rightarrow> error + (world \<times> string)" where
  "raw_input prompt w =
     (case stdin w of
        [] \<Rightarrow> Inl EOFError
      | l # rest \<Rightarrow> Inr (w\<lparr>stdin := rest, events := events w @ [RawInput prompt]\<rparr>, l))"

fun is_input :: "event \<Rightarrow> bool" where
  "is_input (RawInput p) = True"
| "is_input e = False"

section \<open>Routines from outside this file\<close>

text \<open>
  The class calls numpy, scipy, skimage and the package's own modules \<^verbatim>\<open>utilities\<close>,
  \<^verbatim>\<open>pixel_ident\<close>, \<^verbatim>\<open>length\<close> and \<^verbatim>\<open>width\<close>, none of which is part of this file. Each
  such routine is a parameter, collected in one record. A routine that is handed
  \<^verbatim>\<open>verbose\<close> may draw; it is taken not to read the console.
  \<^item> \<open>pad_region\<close>: \<^verbatim>\<open>np.pad(image[slices], 1, padwithzeros)\<close> for the four bounds (line 102);
  \<^item> \<open>parse_float\<close>: \<^verbatim>\<open>float(s)\<close> on a string, \<open>None\<close> where it raises ValueError;
  \<^item> \<open>nanmax\<close>: \<^verbatim>\<open>np.nanmax\<close>;
  \<^item> \<open>segment\<close>: lines 220 to 225, from the image and the four thresholds to the
    flattened image, the smoothed image and the mask;
  \<^item> \<open>glob_cut\<close>: lines 229 and 230, the global percentile cut applied to the mask;
  \<^item> \<open>medial_axis\<close>: the skeleton and the distance transform of a mask;
  \<^item> \<open>prune_narrow\<close>: the indexed assignment of line 292;
  \<^item> \<open>np_multiply\<close>: the product of two arrays, which raises on shapes that do not match;
  \<^item> the eight routines of \<^verbatim>\<open>analyze_skeletons\<close>, and \<open>dist_transform\<close>, \<open>gauss_width\<close>,
    \<open>nd_label\<close> (with the eight-connected structure) and \<open>nd_sum\<close> of \<^verbatim>\<open>find_widths\<close>.

  Values whose structure only these routines know have the opaque type \<open>'o\<close>.
\<close>

record 'o ext =
  pad_region :: "ndarray \<Rightarrow> int \<Rightarrow> int \<Rightarrow> int \<Rightarrow> int \<Rightarrow> ndarray"
  parse_float :: "string \<Rightarrow> real option"
  nanmax :: "ndarray \<Rightarrow> real"
  segment :: "ndarray \<Rightarrow> real \<Rightarrow> real \<Rightarrow> real \<Rightarrow> real \<Rightarrow> error + (ndarray \<times> ndarray \<times> ndarray)"
  glob_cut :: "ndarray \<Rightarrow> real \<Rightarrow> ndarray \<Rightarrow> ndarray"
  medial_axis :: "ndarray \<Rightarrow> error + (ndarray \<times> ndarray)"
  prune_narrow :: "ndarray \<Rightarrow> ndarray \<Rightarrow> real \<Rightarrow> ndarray"
  np_multiply :: "ndarray \<Rightarrow> ndarray \<Rightarrow> error + ndarray"
  isolatefilaments :: "ndarray \<Rightarrow> ndarray \<Rightarrow> real \<Rightarrow> error + ('o \<times> ndarray \<times> int \<times> 'o)"
  pix_identify :: "'o \<Rightarrow> int \<Rightarrow> error + ('o \<times> 'o \<times> 'o \<times> 'o \<times> 'o)"
  init_lengths :: "'o \<Rightarrow> 'o \<Rightarrow> error + ('o \<times> 'o)"
  pre_graph :: "'o \<Rightarrow> 'o \<Rightarrow> 'o \<Rightarrow> 'o \<Rightarrow> error + ('o \<times> 'o \<times> 'o \<times> 'o)"
  longest_path :: "'o \<Rightarrow> 'o \<Rightarrow> 'o \<Rightarrow> bool \<Rightarrow> error + ('o \<times> 'o)"
  extremum_pts :: "'o \<Rightarrow> 'o \<Rightarrow> 'o \<Rightarrow> error + 'o"
  final_lengths ::
    "ndarray \<Rightarrow> 'o \<Rightarrow> 'o \<Rightarrow> 'o \<Rightarrow> 'o \<Rightarrow> 'o \<Rightarrow> 'o \<Rightarrow> 'o \<Rightarrow> real \<Rightarrow> real
      \<Rightarrow> error + (real list \<times> 'o \<times> 'o \<times> 'o)"
  final_analysis :: "'o \<Rightarrow> error + ('o \<times> 'o \<times> 'o \<times> 'o)"
  dist_transform :: "'o option \<Rightarrow> 'o option \<Rightarrow> nat list \<Rightarrow> int \<Rightarrow> error + ('o \<times> 'o)"
  gauss_width ::
    "ndarray \<Rightarrow> 'o \<Rightarrow> 'o \<Rightarrow> real \<Rightarrow> real \<Rightarrow> 'o option \<Rightarrow> bool
      \<Rightarrow> error + (pyval list \<times> 'o \<times> 'o)"
  nd_label :: "ndarray \<Rightarrow> ndarray \<times> nat"
  nd_sum :: "ndarray \<Rightarrow> ndarray \<Rightarrow> nat list \<Rightarrow> real list"

section \<open>The object\<close>

text \<open>
  The attributes of a \<^verbatim>\<open>fil_finder_2D\<close> object. An attribute that Python holds as
  \<^verbatim>\<open>None\<close> (or that does not exist yet) is \<open>None\<close>. The mask is held by reference, since
  the constructor shares it with its caller. \<^verbatim>\<open>self.image\<close> and \<^verbatim>\<open>self.mask\<close> are
  \<open>image_a\<close> and \<open>mask_r\<close> here. The attributes \<^verbatim>\<open>smooth_image\<close>, \<^verbatim>\<open>flat_image\<close>,
  \<^verbatim>\<open>masked_image\<close> and \<^verbatim>\<open>dataframe\<close> are set to \<^verbatim>\<open>None\<close> by the constructor and
  never read by the methods below; they are left out.
\<close>

record 'o fil_finder_2D =
  image_a :: ndarray
  header :: "string \<rightharpoonup> pyval"
  skel_thresh :: real
  branch_thresh :: real
  pad_size :: int
  mask_r :: "ref option"
  imgscale :: real
  beamwidth :: real
  pixel_unit_flag :: bool
  glob_thresh :: "real option"
  adapt_thresh :: "real option"
  flatten_thresh :: real
  smooth_size :: "real option"
  size_thresh :: "real option"
  flat_img :: "ndarray option"
  smooth_img :: "ndarray option"
  lengths :: "real list option"
  widths :: "pyval list option"
  width_fits :: "('o \<times> 'o) option"
  curvature :: "'o option"
  filament_arrays :: "'o option"
  labelled_filament_arrays :: "'o option"
  number_of_filaments :: "int option"
  array_offsets :: "'o option"
  skeleton :: "ndarray option"
  filament_extents :: "'o option"
  branch_info :: "('o \<times> 'o) option"
  medial_axis_distance :: "ndarray option"

section \<open>The constructor\<close>

text \<open>The arguments of \<^verbatim>\<open>__init__\<close> (line 37).\<close>

record init_args =
  a_image :: ndarray
  a_hdr :: "string \<rightharpoonup> pyval"
  a_beamwidth :: real
  a_skel_thresh :: real
  a_branch_thresh :: real
  a_pad_size :: int
  a_flatten_thresh :: real
  a_smooth_size :: "real option"
  a_size_thresh :: "real option"
  a_glob_thresh :: "real option"
  a_adapt_thresh :: "real option"
  a_distance :: "real option"
  a_region_slice :: "int list option"
  a_mask :: "ref option"

text \<open>
  Lines 94 to 96. The \<^verbatim>\<open>raise\<close> statement applies \<^verbatim>\<open>%\<close> to the exception object, which
  is itself a TypeError; either way a TypeError leaves the constructor.
\<close>

definition validate_image :: "ndarray \<Rightarrow> error + unit" where
  "validate_image img =
     (let img_dim = length (shape img)
      in if img_dim < 2 \<or> img_dim > 2 then Inl TypeError else Inr ())"

text \<open>Lines 97 to 102: the four bounds are read from the list before the image is cut.\<close>

definition select_region :: "'o ext \<Rightarrow> ndarray \<Rightarrow> int list option \<Rightarrow> error + ndarray" where
  "select_region X img region_slice =
     (case region_slice of
        None \<Rightarrow> Inr img
      | Some rs \<Rightarrow>
          if length rs < 4 then Inl IndexError
          else Inr (pad_region X img (rs ! 0) (rs ! 1) (rs ! 2) (rs ! 3)))"

text \<open>\<^verbatim>\<open>mask[np.isnan(mask)] = 0.0\<close>: an assignment into the array itself.\<close>

definition nan_to_zero :: "ndarray \<Rightarrow> ndarray" where
  "nan_to_zero a = a\<lparr>elems := map (\<lambda>x. if x = NaN then Num 0 else x) (elems a)\<rparr>"

text \<open>Lines 109 to 112, on the store: the array the caller's reference points to is rewritten.\<close>

definition adopt_mask :: "ref option \<Rightarrow> world \<Rightarrow> world" where
  "adopt_mask m w =
     (case m of
        None \<Rightarrow> w
      | Some r \<Rightarrow> w\<lparr>heap := (heap w)(r := nan_to_zero (heap w r))\<rparr>)"

text \<open>
  Lines 114 to 122: the image scale, the beam width and the pixel-unit flag. Both branches
  read \<^verbatim>\<open>hdr["CDELT2"]\<close>. In the pixel branch \<^verbatim>\<open>(hdr["CDELT2"] * 3600)**(-1)\<close> raises
  ZeroDivisionError on zero.
\<close>

definition resolve_scale ::
  "(string \<rightharpoonup> pyval) \<Rightarrow> real \<Rightarrow> real option \<Rightarrow> world
    \<Rightarrow> error + (world \<times> real \<times> real \<times> bool)" where
  "resolve_scale hdr bw distance w =
     (case distance of
        None \<Rightarrow>
          (let w1 = emit [Print ''No distance given. Results will be in pixel units.''] w
           in bind_err (py_lookup hdr ''CDELT2'') (\<lambda>c.
                case as_number c of
                  None \<Rightarrow> Inl TypeError
                | Some x \<Rightarrow>
                    if x * 3600 = 0 then Inl ZeroDivisionError
                    else Inr (w1, 1, bw * (x * 3600) powi (- 1), True)))
      | Some d \<Rightarrow>
          bind_err (py_lookup hdr ''CDELT2'') (\<lambda>c.
            case as_number c of
              None \<Rightarrow> Inl TypeError
            | Some x \<Rightarrow>
                Inr (w, x * (pi / 180) * d,
                     (bw / sqrt (8 * ln 2)) * (2 * pi / 206265) * d, False)))"

text \<open>
  The object as lines 98 to 147 leave it, from the arguments, the image kept and the scale,
  beam width and flag found.
\<close>

definition new_object :: "init_args \<Rightarrow> ndarray \<Rightarrow> real \<Rightarrow> real \<Rightarrow> bool \<Rightarrow> 'o fil_finder_2D" where
  "new_object a img scale bw flag =
     \<lparr>image_a = img, header = a_hdr a, skel_thresh = a_skel_thresh a,
      branch_thresh = a_branch_thresh a, pad_size = a_pad_size a, mask_r = a_mask a,
      imgscale = scale, beamwidth = bw, pixel_unit_flag = flag,
      glob_thresh = a_glob_thresh a, adapt_thresh = a_adapt_thresh a,
      flatten_thresh = a_flatten_thresh a, smooth_size = a_smooth_size a,
      size_thresh = a_size_thresh a, flat_img = None, smooth_img = None,
      lengths = None, widths = None, width_fits = None, curvature = None,
      filament_arrays = None, labelled_filament_arrays = None,
      number_of_filaments = None, array_offsets = None, skeleton = None,
      filament_extents = None, branch_info = None, medial_axis_distance = None\<rparr>"

text \<open>\<^verbatim>\<open>__init__\<close>, lines 94 to 147.\<close>

definition init :: "'o ext \<Rightarrow> init_args \<Rightarrow> world \<Rightarrow> error + (world \<times> 'o fil_finder_2D)" where
  "init X a w =
     bind_err (validate_image (a_image a)) (\<lambda>_.
     bind_err (select_region X (a_image a) (a_region_slice a)) (\<lambda>img.
     bind_err (resolve_scale (a_hdr a) (a_beamwidth a) (a_distance a) (adopt_mask (a_mask a) w))
       (\<lambda>(w1, scale, bw, flag). Inr (w1, new_object a img scale bw flag))))"

section \<open>\<^verbatim>\<open>create_mask\<close>\<close>

text \<open>Lines 203 to 210: an argument that is given replaces the attribute.\<close>

definition override_thresholds ::
  "real option \<Rightarrow> real option \<Rightarrow> real option \<Rightarrow> real option \<Rightarrow> 'o fil_finder_2D
    \<Rightarrow> 'o fil_finder_2D" where
  "override_thresholds glob_arg adapt_arg smooth_arg size_arg self =
     self\<lparr>glob_thresh := (case glob_arg of None \<Rightarrow> glob_thresh self | Some v \<Rightarrow> Some v),
          adapt_thresh := (case adapt_arg of None \<Rightarrow> adapt_thresh self | Some v \<Rightarrow> Some v),
          smooth_size := (case smooth_arg of None \<Rightarrow> smooth_size self | Some v \<Rightarrow> Some v),
          size_thresh := (case size_arg of None \<Rightarrow> size_thresh self | Some v \<Rightarrow> Some v)\<rparr>"

text \<open>
  Lines 212 to 218: the three thresholds that are still \<^verbatim>\<open>None\<close> are computed from the
  image scale. A zero scale raises ZeroDivisionError in each of the three formulas.
\<close>

definition default_size_thresh :: "'o fil_finder_2D \<Rightarrow> error + real" where
  "default_size_thresh self =
     (case size_thresh self of
        Some v \<Rightarrow> Inr v
      | None \<Rightarrow>
          if imgscale self = 0 then Inl ZeroDivisionError
          else Inr (py_round (0.1 * pi * 0.5 * (3 / 40) * imgscale self powi (- 2))))"

definition default_adapt_thresh :: "'o fil_finder_2D \<Rightarrow> error + real" where
  "default_adapt_thresh self =
     (case adapt_thresh self of
        Some v \<Rightarrow> Inr v
      | None \<Rightarrow>
          if imgscale self = 0 then Inl ZeroDivisionError
          else Inr (py_round (0.2 / imgscale self)))"

definition default_smooth_size :: "'o fil_finder_2D \<Rightarrow> error + real" where
  "default_smooth_size self =
     (case smooth_size self of
        Some v \<Rightarrow> Inr v
      | None \<Rightarrow>
          if imgscale self = 0 then Inl ZeroDivisionError
          else Inr (py_round (0.05 / imgscale self)))"

text \<open>
  The loop of lines 236 to 246 over the lines still to be typed: each round draws, prints
  and asks; \<^verbatim>\<open>no\<close>, \<^verbatim>\<open>n\<close> or an empty line ends it, any other answer must parse as a
  float. The numbers formatted into the printed line are not modelled.
\<close>

fun rescale_loop ::
  "'o ext \<Rightarrow> real \<Rightarrow> string list \<Rightarrow> event list \<Rightarrow> error + (string list \<times> event list)" where
  "rescale_loop X vmax [] evs = Inl EOFError"
| "rescale_loop X vmax (rescale # rest) evs =
     (let evs1 = evs @ [Plot ''imshow'', Show,
            Print ''Mean and median value of image are (%s,%s), vmax currently set to %s'',
            RawInput ''Rescale image? Enter new vmax or no: '']
      in if rescale = ''no'' \<or> rescale = ''n'' \<or> rescale = '''' then Inr (rest, evs1)
         else (case parse_float X rescale of
                 None \<Rightarrow> Inl ValueError
               | Some v \<Rightarrow> rescale_loop X v rest evs1))"

text \<open>Lines 232 to 246, the \<^verbatim>\<open>verbose\<close> block.\<close>

definition inspect_mask :: "'o ext \<Rightarrow> 'o fil_finder_2D \<Rightarrow> world \<Rightarrow> error + world" where
  "inspect_mask X self w =
     bind_err (rescale_loop X (nanmax X (image_a self)) (stdin w) (events w @ [Plot ''contour'']))
       (\<lambda>(rest, evs). Inr (w\<lparr>stdin := rest, events := evs\<rparr>))"

text \<open>\<^verbatim>\<open>create_mask\<close>, lines 200 to 248. A mask that is already there ends the call at once.\<close>

definition create_mask ::
  "'o ext \<Rightarrow> real option \<Rightarrow> real option \<Rightarrow> real option \<Rightarrow> real option \<Rightarrow> bool
    \<Rightarrow> 'o fil_finder_2D \<Rightarrow> world \<Rightarrow> error + (world \<times> 'o fil_finder_2D)" where
  "create_mask X glob_arg adapt_arg smooth_arg size_arg verbose self w =
     (if mask_r self \<noteq> None then Inr (w, self)
      else
        (let s0 = override_thresholds glob_arg adapt_arg smooth_arg size_arg self
         in bind_err (default_size_thresh s0) (\<lambda>sz.
            bind_err (default_adapt_thresh s0) (\<lambda>ad.
            bind_err (default_smooth_size s0) (\<lambda>sm.
            bind_err (segment X (image_a s0) (flatten_thresh s0) sm ad sz) (\<lambda>(flat, smooth, m).
              let m1 = (case glob_thresh s0 of None \<Rightarrow> m | Some g \<Rightarrow> glob_cut X flat g m);
                  (r, w1) = alloc m1 w;
                  s1 = s0\<lparr>size_thresh := Some sz, adapt_thresh := Some ad,
                          smooth_size := Some sm, flat_img := Some flat,
                          smooth_img := Some smooth, mask_r := Some r\<rparr>
              in if verbose then bind_err (inspect_mask X s1 w1) (\<lambda>w2. Inr (w2, s1))
                 else Inr (w1, s1)))))))"

section \<open>\<^verbatim>\<open>medskel\<close>\<close>

text \<open>
  Lines 284 to 291: the width threshold. In pixel-unit mode it is asked for on the console
  (an empty answer stands for 2); otherwise it is a hundredth of a parsec in pixels.
\<close>

definition width_threshold :: "'o ext \<Rightarrow> 'o fil_finder_2D \<Rightarrow> world \<Rightarrow> error + (world \<times> real)" where
  "width_threshold X self w =
     (if pixel_unit_flag self then
        bind_err (raw_input ''Enter threshold change or pass: ''
                    (emit [Print ''Setting arbitrary width threshold to 2 pixels''] w))
          (\<lambda>(w1, answer).
             if answer = '''' then Inr (w1, 2)
             else (case parse_float X answer of
                     None \<Rightarrow> Inl ValueError
                   | Some v \<Rightarrow> Inr (w1, v)))
      else if imgscale self = 0 then Inl ZeroDivisionError
      else Inr (w, py_round ((0.1 / 10) / imgscale self)))"

text \<open>Lines 298 to 304, the \<^verbatim>\<open>verbose\<close> block: the masked image is only drawn.\<close>

definition show_skeleton :: "'o ext \<Rightarrow> 'o fil_finder_2D \<Rightarrow> world \<Rightarrow> error + world" where
  "show_skeleton X self w =
     (case mask_r self of
        None \<Rightarrow> Inl TypeError
      | Some r \<Rightarrow>
          bind_err (np_multiply X (image_a self) (heap w r))
            (\<lambda>masked_image. Inr (emit [Plot ''imshow'', Show] w)))"

text \<open>\<^verbatim>\<open>medskel\<close>, lines 282 to 306.\<close>

definition medskel ::
  "'o ext \<Rightarrow> bool \<Rightarrow> bool \<Rightarrow> 'o fil_finder_2D \<Rightarrow> world \<Rightarrow> error + (world \<times> 'o fil_finder_2D)" where
  "medskel X return_distance verbose self w =
     (case mask_r self of
        None \<Rightarrow> Inl LibraryError
      | Some r \<Rightarrow>
          bind_err (medial_axis X (heap w r)) (\<lambda>(skel, dist).
          bind_err
            (if return_distance then
               bind_err (width_threshold X self w) (\<lambda>(w1, thr).
                 Inr (w1, self\<lparr>skeleton := Some (prune_narrow X skel dist thr),
                               medial_axis_distance := Some dist\<rparr>))
             else Inr (w, self\<lparr>skeleton := Some skel\<rparr>))
            (\<lambda>(w1, s1).
               if verbose then bind_err (show_skeleton X s1 w1) (\<lambda>w2. Inr (w2, s1))
               else Inr (w1, s1))))"

section \<open>\<^verbatim>\<open>analyze_skeletons\<close>\<close>

text \<open>Lines 382 to 412: eight calls in a row and the attributes they fill.\<close>

definition analyze_skeletons ::
  "'o ext \<Rightarrow> bool \<Rightarrow> 'o fil_finder_2D \<Rightarrow> world \<Rightarrow> error + (world \<times> 'o fil_finder_2D)" where
  "analyze_skeletons X verbose self w =
     (case (skeleton self, mask_r self) of
        (Some skel, Some r) \<Rightarrow>
          bind_err (isolatefilaments X skel (heap w r) (skel_thresh self))
            (\<lambda>(isolated_filaments, new_mask, num, offsets).
          bind_err (pix_identify X isolated_filaments num)
            (\<lambda>(interpts, hubs, ends, filbranches, labeled_fil_arrays).
          bind_err (init_lengths X labeled_fil_arrays filbranches)
            (\<lambda>(initial_lengths, filament_pixels).
          bind_err (pre_graph X labeled_fil_arrays initial_lengths interpts ends)
            (\<lambda>(end_nodes, inter_nodes, edge_list, nodes).
          bind_err (longest_path X edge_list nodes initial_lengths verbose)
            (\<lambda>(max_path, extremum).
          bind_err (extremum_pts X labeled_fil_arrays extremum ends)
            (\<lambda>extents.
          bind_err (final_lengths X (image_a self) max_path edge_list labeled_fil_arrays
                      filament_pixels interpts filbranches initial_lengths (imgscale self)
                      (branch_thresh self))
            (\<lambda>(main_lengths, branch_lengths, labeled_fil_arrays1, curv).
          bind_err (final_analysis X labeled_fil_arrays1)
            (\<lambda>(labeled_fil_arrays2, filbranches2, final_hubs, branch_lengths2).
               let (r1, w1) = alloc new_mask w
               in Inr (w1,
                    self\<lparr>filament_arrays := Some isolated_filaments, mask_r := Some r1,
                         number_of_filaments := Some num, array_offsets := Some offsets,
                         filament_extents := Some extents, lengths := Some main_lengths,
                         labelled_filament_arrays := Some labeled_fil_arrays2,
                         branch_info := Some (filbranches2, branch_lengths2),
                         curvature := Some curv\<rparr>)))))))))
      | _ \<Rightarrow> Inl LibraryError)"

section \<open>\<^verbatim>\<open>find_widths\<close>\<close>

text \<open>
  Lines 445 to 462. \<^verbatim>\<open>av_widths\<close> of line 457 is a local variable: the sums of the
  medial-axis distance over the labelled regions of the mask, divided by the sums of the
  skeleton over the same regions. It reaches the histogram of line 459 when \<^verbatim>\<open>verbose\<close>
  is set, and nothing else.
\<close>

definition find_widths ::
  "'o ext \<Rightarrow> bool \<Rightarrow> 'o fil_finder_2D \<Rightarrow> world \<Rightarrow> error + (world \<times> 'o fil_finder_2D)" where
  "find_widths X verbose self w =
     bind_err (dist_transform X (labelled_filament_arrays self) (array_offsets self)
                 (shape (image_a self)) (pad_size self))
       (\<lambda>(dist_transform_all, dist_transform_separate).
     bind_err (gauss_width X (image_a self) dist_transform_all dist_transform_separate
                 (beamwidth self) (imgscale self) (array_offsets self) verbose)
       (\<lambda>(ws, fit_params, fit_errors).
          let s1 = self\<lparr>widths := Some ws, width_fits := Some (fit_params, fit_errors)\<rparr>
          in (case medial_axis_distance s1 of
                None \<Rightarrow> Inr (w, s1)
              | Some mad \<Rightarrow>
                  (case (mask_r s1, skeleton s1) of
                     (Some r, Some skel) \<Rightarrow>
                       (let (labels, n) = nd_label X (heap w r);
                            av_widths = map2 np_divide (nd_sum X mad labels [1..<n + 1])
                                          (nd_sum X skel labels [1..<n + 1])
                        in if verbose then Inr (emit [Hist av_widths, Show] w, s1)
                           else Inr (w, s1))
                   | _ \<Rightarrow> Inl LibraryError))))"

section \<open>\<^verbatim>\<open>results\<close>\<close>

text \<open>The string that line 487 writes for a rejected width.\<close>

definition fit_fail :: pyval where
  "fit_fail = PyStr ''Fit Fail''"

text \<open>
  Lines 481 to 490, the branches of one iteration, on the length \<open>l\<close> and the width \<open>w\<close>
  already read: the pair appended to \<^verbatim>\<open>overall_lengths\<close> and \<^verbatim>\<open>overall_widths\<close>.
\<close>

definition reconcile :: "real \<Rightarrow> pyval \<Rightarrow> real \<times> pyval" where
  "reconcile l w =
     (case w of
        PyFloat x \<Rightarrow> if l > x then (l + x, PyFloat x) else (l, fit_fail)
      | _ \<Rightarrow> (l, w))"

text \<open>
  The loop of lines 480 to 490 over the indices of \<^verbatim>\<open>range(self.number_of_filaments)\<close>,
  with the two accumulators. \<^verbatim>\<open>self.widths[i]\<close> is read first, \<^verbatim>\<open>self.lengths[i]\<close> next
  (in either branch).
\<close>

fun results_loop ::
  "real list option \<Rightarrow> pyval list option \<Rightarrow> nat list \<Rightarrow> real list \<Rightarrow> pyval list
    \<Rightarrow> error + (real list \<times> pyval list)" where
  "results_loop ls ws [] ol ow = Inr (ol, ow)"
| "results_loop ls ws (i # ixs) ol ow =
     (case py_getitem ws i of
        Inl e \<Rightarrow> Inl e
      | Inr w \<Rightarrow>
          (case py_getitem ls i of
             Inl e \<Rightarrow> Inl e
           | Inr l \<Rightarrow>
               results_loop ls ws ixs (ol @ [fst (reconcile l w)]) (ow @ [snd (reconcile l w)])))"

text \<open>
  \<^verbatim>\<open>results\<close> (lines 478 to 495). \<^verbatim>\<open>range(None)\<close> is a TypeError; a negative count gives
  the empty range.
\<close>

definition results :: "'o fil_finder_2D \<Rightarrow> error + 'o fil_finder_2D" where
  "results self =
     (case number_of_filaments self of
        None \<Rightarrow> Inl TypeError
      | Some n \<Rightarrow>
          (case results_loop (lengths self) (widths self) [0..<nat n] [] [] of
             Inl e \<Rightarrow> Inl e
           | Inr (ol, ow) \<Rightarrow> Inr (self\<lparr>lengths := Some ol, widths := Some ow\<rparr>)))"

section \<open>The steps of \<^verbatim>\<open>run\<close>\<close>

text \<open>
  \<^verbatim>\<open>run\<close> from line 578 to line 595: the five steps in their order. \<open>graphviz\<close> says
  whether \<^verbatim>\<open>import graphviz\<close> succeeds. The rest of \<^verbatim>\<open>run\<close> (the table, the saved mask
  and the saved plots, lines 596 to 638) is not modelled.
\<close>

definition run_steps ::
  "'o ext \<Rightarrow> bool \<Rightarrow> bool \<Rightarrow> string option \<Rightarrow> 'o fil_finder_2D \<Rightarrow> world
    \<Rightarrow> error + (world \<times> 'o fil_finder_2D)" where
  "run_steps X graphviz verbose save_name self w =
     (let graph_verbose = (if graphviz then verbose else False);
          w0 = (if verbose then emit [Print ''Best to run in pylab for verbose output.''] w
                else w)
      in bind_err (case save_name of
                     None \<Rightarrow> py_lookup (header self) ''OBJECT''
                   | Some n \<Rightarrow> Inr (PyStr n)) (\<lambda>name.
         bind_err (create_mask X None None None None verbose self w0) (\<lambda>(w1, s1).
         bind_err (medskel X True verbose s1 w1) (\<lambda>(w2, s2).
         bind_err (analyze_skeletons X graph_verbose s2 w2) (\<lambda>(w3, s3).
         bind_err (find_widths X verbose s3 w3) (\<lambda>(w4, s4).
         bind_err (results s4) (\<lambda>s5. Inr (w4, s5))))))))"

section \<open>Two runs that differ only in the console\<close>

text \<open>
  To say that a call does not depend on the console: \<open>put_stdin xs r\<close> is the outcome \<open>r\<close>
  with the lines still to be typed replaced by \<open>xs\<close>. A call that returns
  \<open>put_stdin xs r\<close> when started with \<open>xs\<close> on the console, whatever \<open>xs\<close> is, where it
  returns \<open>r\<close> otherwise, neither reads a line nor fails for want of one.
\<close>

definition put_stdin :: "string list \<Rightarrow> error + (world \<times> 's) \<Rightarrow> error + (world \<times> 's)" where
  "put_stdin xs r = (case r of Inl e \<Rightarrow> Inl e | Inr (w', s) \<Rightarrow> Inr (w'\<lparr>stdin := xs\<rparr>, s))"

section \<open>Example inputs\<close>

text \<open>
  Concrete objects, arguments and stand-ins for the outside routines, on which the
  statements below are instantiated. \<open>stub_ext\<close> answers every call with a fixed value:
  one filament of length 5 whose fit gives the width 1. \<open>failing_ext\<close> differs in that the
  fit fails. In \<open>quiet_world\<close> nothing is typed on the console and every reference holds
  a two-pixel array with one NaN.
\<close>

definition blank :: "unit fil_finder_2D" where
  "blank = \<lparr>image_a = \<lparr>shape = [1, 2], elems = [Num 1, Num 2]\<rparr>, header = Map.empty,
     skel_thresh = 0, branch_thresh = 0, pad_size = 0, mask_r = None, imgscale = 1,
     beamwidth = 1, pixel_unit_flag = True, glob_thresh = None, adapt_thresh = None,
     flatten_thresh = 95, smooth_size = None, size_thresh = None, flat_img = None,
     smooth_img = None, lengths = None, widths = None, width_fits = None, curvature = None,
     filament_arrays = None, labelled_filament_arrays = None, number_of_filaments = None,
     array_offsets = None, skeleton = None, filament_extents = None, branch_info = None,
     medial_axis_distance = None\<rparr>"

definition three_filaments :: "unit fil_finder_2D" where
  "three_filaments = blank\<lparr>number_of_filaments := Some 3, lengths := Some [5, 2, 7],
     widths := Some [PyFloat 1, PyFloat 3, fit_fail]\<rparr>"

definition integer_width :: "unit fil_finder_2D" where
  "integer_width = blank\<lparr>number_of_filaments := Some 1, lengths := Some [5],
     widths := Some [PyInt 3]\<rparr>"

definition negative_width :: "unit fil_finder_2D" where
  "negative_width = blank\<lparr>number_of_filaments := Some 1, lengths := Some [5],
     widths := Some [PyFloat (- 1)]\<rparr>"

definition stub_ext :: "unit ext" where
  "stub_ext = \<lparr>pad_region = (\<lambda>img x0 x1 y0 y1. img),
     parse_float = (\<lambda>s. if s = ''3'' then Some 3 else None),
     nanmax = (\<lambda>a. 0),
     segment = (\<lambda>img f sm ad sz. Inr (img, img, img)),
     glob_cut = (\<lambda>flat g m. m),
     medial_axis = (\<lambda>m. Inr (m, m)),
     prune_narrow = (\<lambda>skel dist thr. skel),
     np_multiply = (\<lambda>a b. Inr a),
     isolatefilaments = (\<lambda>skel m t. Inr ((), m, 1, ())),
     pix_identify = (\<lambda>fils num. Inr ((), (), (), (), ())),
     init_lengths = (\<lambda>arrs brs. Inr ((), ())),
     pre_graph = (\<lambda>arrs ls ips es. Inr ((), (), (), ())),
     longest_path = (\<lambda>edges nodes ls v. Inr ((), ())),
     extremum_pts = (\<lambda>arrs ex es. Inr ()),
     final_lengths = (\<lambda>img mp el arrs px ips brs ls sc bt. Inr ([5], (), (), ())),
     final_analysis = (\<lambda>arrs. Inr ((), (), (), ())),
     dist_transform = (\<lambda>arrs offs sh pad. Inr ((), ())),
     gauss_width = (\<lambda>img da ds bw sc offs v. Inr ([PyFloat 1], (), ())),
     nd_label = (\<lambda>m. (m, 1)),
     nd_sum = (\<lambda>a l ks. map (\<lambda>k. 1) ks)\<rparr>"

definition quiet_world :: world where
  "quiet_world = \<lparr>heap = (\<lambda>r. \<lparr>shape = [1, 2], elems = [Num 1, NaN]\<rparr>), next_ref = 1,
     stdin = [], events = []\<rparr>"

definition pixel_args :: init_args where
  "pixel_args = \<lparr>a_image = \<lparr>shape = [1, 2], elems = [Num 1, Num 2]\<rparr>,
     a_hdr = [''CDELT2'' \<mapsto> PyFloat (1 / 3600)], a_beamwidth = 15, a_skel_thresh = 30,
     a_branch_thresh = 5, a_pad_size = 10, a_flatten_thresh = 95, a_smooth_size = None,
     a_size_thresh = None, a_glob_thresh = None, a_adapt_thresh = None, a_distance = None,
     a_region_slice = None, a_mask = None\<rparr>"

definition cube_args :: init_args where
  "cube_args = pixel_args\<lparr>a_image := \<lparr>shape = [1, 1, 2], elems = [Num 1, Num 2]\<rparr>\<rparr>"

definition physical_args :: init_args where
  "physical_args = pixel_args\<lparr>a_distance := Some 160\<rparr>"

definition masked_args :: init_args where
  "masked_args = pixel_args\<lparr>a_mask := Some 0\<rparr>"

definition bare_args :: init_args where
  "bare_args = pixel_args\<lparr>a_hdr := Map.empty\<rparr>"

definition zero_scale_args :: init_args where
  "zero_scale_args = pixel_args\<lparr>a_hdr := [''CDELT2'' \<mapsto> PyFloat 0]\<rparr>"

definition named_args :: init_args where
  "named_args = pixel_args\<lparr>a_hdr := [''OBJECT'' \<mapsto> PyStr ''chamaeleonI-250'']\<rparr>"

definition physical_object :: "unit fil_finder_2D" where
  "physical_object = blank\<lparr>mask_r := Some 0, imgscale := 1 / 100, pixel_unit_flag := False\<rparr>"

definition pixel_object :: "unit fil_finder_2D" where
  "pixel_object = blank\<lparr>mask_r := Some 0\<rparr>"

definition faint_object :: "unit fil_finder_2D" where
  "faint_object = blank\<lparr>mask_r := Some 0, number_of_filaments := Some 1, lengths := Some [5],
     skeleton := Some \<lparr>shape = [1, 2], elems = [Num 1, Num 0]\<rparr>,
     medial_axis_distance := Some \<lparr>shape = [1, 2], elems = [Num 1, Num 0]\<rparr>\<rparr>"

definition failing_ext :: "unit ext" where
  "failing_ext = stub_ext\<lparr>gauss_width := (\<lambda>img da ds bw sc offs v. Inr ([fit_fail], (), ()))\<rparr>"

section \<open>Facts about the model\<close>

lemma bind_err_simps [simp]:
  "bind_err (Inl e) f = Inl e"
  "bind_err (Inr x) f = f x"
  by (simp_all add: bind_err_def)

lemma init_2d:
  assumes "length (shape (a_image a)) = 2"
    and "a_region_slice a = None \<or> (\<exists>rs. a_region_slice a = Some rs \<and> 4 \<le> length rs)"
  shows "\<exists>img. init X a w =
     bind_err (resolve_scale (a_hdr a) (a_beamwidth a) (a_distance a) (adopt_mask (a_mask a) w))
       (\<lambda>(w1, scale, bw, flag). Inr (w1, new_object a img scale bw flag))"
  using assms by (auto simp add: init_def validate_image_def select_region_def Let_def)

lemma init_Inr_D:
  assumes "init X a w = Inr (w', self)"
  shows "length (shape (a_image a)) = 2"
    and "\<exists>sc bw fl. resolve_scale (a_hdr a) (a_beamwidth a) (a_distance a) (adopt_mask (a_mask a) w) = Inr (w', sc, bw, fl)"
    and "mask_r self = a_mask a"
  using assms
  by (auto simp add: init_def validate_image_def bind_err_def Let_def new_object_def
      split: sum.splits if_splits prod.splits)

lemma resolve_scale_heap:
  "resolve_scale hdr bw d w = Inr (w', sc, b, fl) \<Longrightarrow> heap w' = heap w \<and> stdin w' = stdin w"
  by (auto simp add: resolve_scale_def emit_def py_lookup_def bind_err_def Let_def
      split: option.splits sum.splits if_splits)

lemma resolve_scale_cases:
  "hdr ''CDELT2'' = None \<Longrightarrow> resolve_scale hdr bw d w = Inl (KeyError ''CDELT2'')"
  "hdr ''CDELT2'' = Some c \<Longrightarrow> as_number c = None \<Longrightarrow> resolve_scale hdr bw d w = Inl TypeError"
  "hdr ''CDELT2'' = Some c \<Longrightarrow> as_number c = Some 0 \<Longrightarrow>
     resolve_scale hdr bw None w = Inl ZeroDivisionError"
  "hdr ''CDELT2'' = Some c \<Longrightarrow> as_number c = Some x \<Longrightarrow> x \<noteq> 0 \<Longrightarrow>
     resolve_scale hdr bw None w =
       Inr (emit [Print ''No distance given. Results will be in pixel units.''] w, 1,
            bw / (x * 3600), True)"
  "hdr ''CDELT2'' = Some c \<Longrightarrow> as_number c = Some x \<Longrightarrow>
     resolve_scale hdr bw (Some dst) w =
       Inr (w, x * (pi / 180) * dst, (bw / sqrt (8 * ln 2)) * (2 * pi / 206265) * dst, False)"
  by (simp_all add: resolve_scale_def py_lookup_def Let_def power_int_minus field_simps
      split: option.splits)

lemma bind_err_Inr_iff:
  "bind_err m f = Inr y \<longleftrightarrow> (\<exists>x. m = Inr x \<and> f x = Inr y)"
  by (cases m) simp_all

lemma put_stdin_simps [simp]:
  "put_stdin xs (Inl e) = Inl e"
  "put_stdin xs (Inr (w', s)) = Inr (w'\<lparr>stdin := xs\<rparr>, s)"
  by (simp_all add: put_stdin_def)

lemma create_mask_stdin:
  assumes "\<not> verbose \<or> mask_r self \<noteq> None"
  shows "create_mask X g a s z verbose self (w\<lparr>stdin := xs\<rparr>) =
         put_stdin xs (create_mask X g a s z verbose self w)"
proof (cases "mask_r self \<noteq> None")
  case True
  then show ?thesis by (simp add: create_mask_def)
next
  case False
  with assms have v: "\<not> verbose" by simp
  show ?thesis
    using False v
    by (simp add: create_mask_def Let_def alloc_def bind_err_def split: sum.splits prod.splits)
qed

lemma create_mask_quiet:
  assumes "\<not> verbose \<or> mask_r self \<noteq> None"
    and "create_mask X g a s z verbose self w = Inr (w', s')"
  shows "stdin w' = stdin w \<and> events w' = events w \<and>
         pixel_unit_flag s' = pixel_unit_flag self \<and> mask_r s' \<noteq> None"
proof (cases "mask_r self \<noteq> None")
  case True
  with assms(2) show ?thesis by (auto simp add: create_mask_def)
next
  case False
  with assms have v: "\<not> verbose" by simp
  show ?thesis
    using False v assms(2)
    by (auto simp add: create_mask_def Let_def alloc_def bind_err_def override_thresholds_def
        split: sum.splits prod.splits)
qed

lemma medskel_stdin:
  assumes "\<not> pixel_unit_flag self \<or> \<not> return_distance"
  shows "medskel X return_distance verbose self (w\<lparr>stdin := xs\<rparr>) =
         put_stdin xs (medskel X return_distance verbose self w)"
  using assms
  by (auto simp add: medskel_def width_threshold_def show_skeleton_def emit_def bind_err_def
      split: option.splits sum.splits prod.splits)

lemma medskel_quiet:
  assumes "\<not> pixel_unit_flag self \<or> \<not> return_distance"
    and "medskel X return_distance verbose self w = Inr (w', s')"
  shows "stdin w' = stdin w \<and> filter is_input (events w') = filter is_input (events w)"
  using assms
  by (auto simp add: medskel_def width_threshold_def show_skeleton_def emit_def bind_err_def
      split: option.splits sum.splits prod.splits if_splits)

lemma analyze_skeletons_stdin:
  "analyze_skeletons X verbose self (w\<lparr>stdin := xs\<rparr>) =
     put_stdin xs (analyze_skeletons X verbose self w)"
  by (simp add: analyze_skeletons_def alloc_def bind_err_def
      split: option.splits sum.splits prod.splits)

lemma analyze_skeletons_quiet:
  assumes "analyze_skeletons X verbose self w = Inr (w', s')"
  shows "stdin w' = stdin w \<and> events w' = events w"
  using assms
  by (auto simp add: analyze_skeletons_def alloc_def bind_err_def
      split: option.splits sum.splits prod.splits)

lemma find_widths_stdin:
  "find_widths X verbose self (w\<lparr>stdin := xs\<rparr>) = put_stdin xs (find_widths X verbose self w)"
  by (simp add: find_widths_def emit_def bind_err_def Let_def
      split: option.splits sum.splits prod.splits)

lemma find_widths_quiet:
  assumes "find_widths X verbose self w = Inr (w', s')"
  shows "stdin w' = stdin w \<and> filter is_input (events w') = filter is_input (events w)"
  using assms
  by (auto simp add: find_widths_def emit_def bind_err_def Let_def
      split: option.splits sum.splits prod.splits if_splits)

lemma py_round_small: "0 \<le> x \<Longrightarrow> x < 1 / 2 \<Longrightarrow> py_round x = 0"
  by (simp add: py_round_def) linarith

lemma create_mask_defaults:
  assumes "create_mask X None None None None verbose self w = Inr (w', s')"
    and "mask_r self = None"
  shows "default_size_thresh self = Inr (the (size_thresh s')) \<and> size_thresh s' \<noteq> None \<and>
         default_adapt_thresh self = Inr (the (adapt_thresh s')) \<and> adapt_thresh s' \<noteq> None \<and>
         default_smooth_size self = Inr (the (smooth_size s')) \<and> smooth_size s' \<noteq> None"
  using assms
  by (auto simp add: create_mask_def Let_def alloc_def bind_err_def override_thresholds_def
      split: sum.splits prod.splits if_splits)

lemma pixel_defaults:
  assumes "imgscale self = 1"
  shows "size_thresh self = None \<Longrightarrow> default_size_thresh self = Inr 0"
    and "adapt_thresh self = None \<Longrightarrow> default_adapt_thresh self = Inr 0"
    and "smooth_size self = None \<Longrightarrow> default_smooth_size self = Inr 0"
proof -
  have "0.1 * pi * 0.5 * (3 / 40) < 1 / 2" using pi_less_4 by simp
  moreover have "0 \<le> 0.1 * pi * 0.5 * (3 / 40)" using pi_ge_zero by simp
  ultimately have "py_round (0.1 * pi * 0.5 * (3 / 40)) = 0" by (rule py_round_small [rotated])
  then show "size_thresh self = None \<Longrightarrow> default_size_thresh self = Inr 0"
    using assms by (simp add: default_size_thresh_def)
  show "adapt_thresh self = None \<Longrightarrow> default_adapt_thresh self = Inr 0"
    using assms by (simp add: default_adapt_thresh_def py_round_small)
  show "smooth_size self = None \<Longrightarrow> default_smooth_size self = Inr 0"
    using assms by (simp add: default_smooth_size_def py_round_small)
qed

lemma put_stdin_step:
  assumes "m' = put_stdin xs m"
    and "\<And>w1 s1. m = Inr (w1, s1) \<Longrightarrow> f (w1\<lparr>stdin := xs\<rparr>, s1) = put_stdin xs (f (w1, s1))"
  shows "bind_err m' f = put_stdin xs (bind_err m f)"
proof (cases m)
  case (Inl e)
  with assms(1) show ?thesis by simp
next
  case (Inr p)
  obtain w1 s1 where p: "p = (w1, s1)" by (cases p)
  with Inr assms show ?thesis by simp
qed

lemma emit_stdin: "emit evs (w\<lparr>stdin := xs\<rparr>) = (emit evs w)\<lparr>stdin := xs\<rparr>"
  by (simp add: emit_def)

lemma run_steps_stdin:
  assumes "\<not> pixel_unit_flag self" and "\<not> verbose \<or> mask_r self \<noteq> None"
  shows "run_steps X gv verbose n self (w\<lparr>stdin := xs\<rparr>) =
         put_stdin xs (run_steps X gv verbose n self w)"
proof -
  define w0 where
    "w0 = (if verbose then emit [Print ''Best to run in pylab for verbose output.''] w else w)"
  have e: "(if verbose then emit [Print ''Best to run in pylab for verbose output.'']
              (w\<lparr>stdin := xs\<rparr>) else w\<lparr>stdin := xs\<rparr>) = w0\<lparr>stdin := xs\<rparr>"
    by (simp add: w0_def emit_stdin)
  have tail: "bind_err (create_mask X None None None None verbose self (w0\<lparr>stdin := xs\<rparr>))
       (\<lambda>(w1, s1).
         bind_err (medskel X True verbose s1 w1) (\<lambda>(w2, s2).
         bind_err (analyze_skeletons X (if gv then verbose else False) s2 w2) (\<lambda>(w3, s3).
         bind_err (find_widths X verbose s3 w3) (\<lambda>(w4, s4).
         bind_err (results s4) (\<lambda>s5. Inr (w4, s5)))))) =
     put_stdin xs (bind_err (create_mask X None None None None verbose self w0)
       (\<lambda>(w1, s1).
         bind_err (medskel X True verbose s1 w1) (\<lambda>(w2, s2).
         bind_err (analyze_skeletons X (if gv then verbose else False) s2 w2) (\<lambda>(w3, s3).
         bind_err (find_widths X verbose s3 w3) (\<lambda>(w4, s4).
         bind_err (results s4) (\<lambda>s5. Inr (w4, s5)))))))"
  proof (rule put_stdin_step [OF create_mask_stdin [OF assms(2)]])
    fix w1 s1
    assume c: "create_mask X None None None None verbose self w0 = Inr (w1, s1)"
    from create_mask_quiet [OF assms(2) c] assms(1) have np: "\<not> pixel_unit_flag s1 \<or> \<not> True"
      by simp
    show "(case (w1\<lparr>stdin := xs\<rparr>, s1) of (w1, s1) \<Rightarrow>
         bind_err (medskel X True verbose s1 w1) (\<lambda>(w2, s2).
         bind_err (analyze_skeletons X (if gv then verbose else False) s2 w2) (\<lambda>(w3, s3).
         bind_err (find_widths X verbose s3 w3) (\<lambda>(w4, s4).
         bind_err (results s4) (\<lambda>s5. Inr (w4, s5)))))) =
       put_stdin xs (case (w1, s1) of (w1, s1) \<Rightarrow>
         bind_err (medskel X True verbose s1 w1) (\<lambda>(w2, s2).
         bind_err (analyze_skeletons X (if gv then verbose else False) s2 w2) (\<lambda>(w3, s3).
         bind_err (find_widths X verbose s3 w3) (\<lambda>(w4, s4).
         bind_err (results s4) (\<lambda>s5. Inr (w4, s5))))))"
      unfolding prod.case
    proof (rule put_stdin_step [OF medskel_stdin [OF np]])
      fix w2 s2
      show "(case (w2\<lparr>stdin := xs\<rparr>, s2) of (w2, s2) \<Rightarrow>
         bind_err (analyze_skeletons X (if gv then verbose else False) s2 w2) (\<lambda>(w3, s3).
         bind_err (find_widths X verbose s3 w3) (\<lambda>(w4, s4).
         bind_err (results s4) (\<lambda>s5. Inr (w4, s5))))) =
       put_stdin xs (case (w2, s2) of (w2, s2) \<Rightarrow>
         bind_err (analyze_skeletons X (if gv then verbose else False) s2 w2) (\<lambda>(w3, s3).
         bind_err (find_widths X verbose s3 w3) (\<lambda>(w4, s4).
         bind_err (results s4) (\<lambda>s5. Inr (w4, s5)))))"
        unfolding prod.case
      proof (rule put_stdin_step [OF analyze_skeletons_stdin])
        fix w3 s3
        show "(case (w3\<lparr>stdin := xs\<rparr>, s3) of (w3, s3) \<Rightarrow>
           bind_err (find_widths X verbose s3 w3) (\<lambda>(w4, s4).
           bind_err (results s4) (\<lambda>s5. Inr (w4, s5)))) =
         put_stdin xs (case (w3, s3) of (w3, s3) \<Rightarrow>
           bind_err (find_widths X verbose s3 w3) (\<lambda>(w4, s4).
           bind_err (results s4) (\<lambda>s5. Inr (w4, s5))))"
          unfolding prod.case
        proof (rule put_stdin_step [OF find_widths_stdin])
          fix w4 s4
          show "(case (w4\<lparr>stdin := xs\<rparr>, s4) of (w4, s4) \<Rightarrow>
             bind_err (results s4) (\<lambda>s5. Inr (w4, s5))) =
           put_stdin xs (case (w4, s4) of (w4, s4) \<Rightarrow>
             bind_err (results s4) (\<lambda>s5. Inr (w4, s5)))"
            by (cases "results s4") simp_all
        qed
      qed
    qed
  qed
  show ?thesis
    unfolding run_steps_def Let_def e
    unfolding w0_def [symmetric]
    by (cases "case n of None \<Rightarrow> py_lookup (header self) ''OBJECT'' | Some n \<Rightarrow> Inr (PyStr n)")
      (simp_all add: tail)
qed

lemma run_steps_quiet:
  assumes "\<not> pixel_unit_flag self" and "\<not> verbose \<or> mask_r self \<noteq> None"
    and "run_steps X gv verbose n self w = Inr (w', s')"
  shows "stdin w' = stdin w \<and> filter is_input (events w') = filter is_input (events w)"
proof -
  define w0 where
    "w0 = (if verbose then emit [Print ''Best to run in pylab for verbose output.''] w else w)"
  have w0: "stdin w0 = stdin w" "filter is_input (events w0) = filter is_input (events w)"
    by (simp_all add: w0_def emit_def)
  from assms(3) obtain w1 s1 w2 s2 w3 s3 s4 where
    c: "create_mask X None None None None verbose self w0 = Inr (w1, s1)"
    and m: "medskel X True verbose s1 w1 = Inr (w2, s2)"
    and a: "analyze_skeletons X (if gv then verbose else False) s2 w2 = Inr (w3, s3)"
    and f: "find_widths X verbose s3 w3 = Inr (w', s4)"
    unfolding run_steps_def Let_def w0_def [symmetric]
    by (auto simp add: bind_err_Inr_iff)
  from create_mask_quiet [OF assms(2) c] assms(1)
  have 1: "stdin w1 = stdin w0" "events w1 = events w0" "\<not> pixel_unit_flag s1 \<or> \<not> True"
    by simp_all
  from medskel_quiet [OF 1(3) m]
  have 2: "stdin w2 = stdin w1" "filter is_input (events w2) = filter is_input (events w1)"
    by simp_all
  from analyze_skeletons_quiet [OF a] have 3: "stdin w3 = stdin w2" "events w3 = events w2"
    by simp_all
  from find_widths_quiet [OF f]
  have 4: "stdin w' = stdin w3" "filter is_input (events w') = filter is_input (events w3)"
    by simp_all
  from w0 1 2 3 4 show ?thesis by simp
qed

lemma results_loop_run:
  "\<forall>i \<in> set ixs. i < length ls \<and> i < length ws \<Longrightarrow>
   results_loop (Some ls) (Some ws) ixs ol ow =
     Inr (ol @ map (\<lambda>i. fst (reconcile (ls ! i) (ws ! i))) ixs,
          ow @ map (\<lambda>i. snd (reconcile (ls ! i) (ws ! i))) ixs)"
  by (induction ixs arbitrary: ol ow) (simp_all add: py_getitem_def)

lemma results_run:
  assumes "number_of_filaments self = Some n"
    and "lengths self = Some ls" and "widths self = Some ws"
    and "nat n \<le> length ls" and "nat n \<le> length ws"
  shows "results self =
     Inr (self\<lparr>lengths := Some (map (\<lambda>i. fst (reconcile (ls ! i) (ws ! i))) [0..<nat n]),
               widths := Some (map (\<lambda>i. snd (reconcile (ls ! i) (ws ! i))) [0..<nat n])\<rparr>)"
proof -
  have "\<forall>i \<in> set [0..<nat n]. i < length ls \<and> i < length ws"
    using assms(4,5) by auto
  from results_loop_run [OF this, of "[]" "[]"] show ?thesis
    using assms(1,2,3) by (simp add: results_def)
qed

lemma stub_ext_sel:
  "medial_axis stub_ext = (\<lambda>m. Inr (m, m))"
  "prune_narrow stub_ext = (\<lambda>skel dist thr. skel)"
  "parse_float stub_ext = (\<lambda>s. if s = ''3'' then Some 3 else None)"
  "isolatefilaments stub_ext = (\<lambda>skel m t. Inr ((), m, 1, ()))"
  "pix_identify stub_ext = (\<lambda>fils num. Inr ((), (), (), (), ()))"
  "init_lengths stub_ext = (\<lambda>arrs brs. Inr ((), ()))"
  "pre_graph stub_ext = (\<lambda>arrs ls ips es. Inr ((), (), (), ()))"
  "longest_path stub_ext = (\<lambda>edges nodes ls v. Inr ((), ()))"
  "extremum_pts stub_ext = (\<lambda>arrs ex es. Inr ())"
  "final_lengths stub_ext = (\<lambda>img mp el arrs px ips brs ls sc bt. Inr ([5], (), (), ()))"
  "final_analysis stub_ext = (\<lambda>arrs. Inr ((), (), (), ()))"
  "dist_transform stub_ext = (\<lambda>arrs offs sh pad. Inr ((), ()))"
  "gauss_width stub_ext = (\<lambda>img da ds bw sc offs v. Inr ([PyFloat 1], (), ()))"
  "nd_label stub_ext = (\<lambda>m. (m, 1))"
  "nd_sum stub_ext = (\<lambda>a l ks. map (\<lambda>k. 1) ks)"
  by (simp_all add: stub_ext_def)

lemma physical_object_sel:
  "mask_r physical_object = Some 0" "\<not> pixel_unit_flag physical_object"
  "imgscale physical_object = 1 / 100"
  by (simp_all add: physical_object_def blank_def)

lemma create_mask_physical:
  "create_mask stub_ext None None None None False physical_object w = Inr (w, physical_object)"
  by (simp add: create_mask_def physical_object_sel)

lemma medskel_physical:
  "\<exists>s'. medskel stub_ext True False physical_object w = Inr (w, s') \<and>
     skeleton s' \<noteq> None \<and> mask_r s' = Some 0"
  by (simp add: medskel_def width_threshold_def physical_object_sel stub_ext_sel)

lemma analyze_skeletons_stub:
  assumes "skeleton s \<noteq> None" and "mask_r s \<noteq> None"
  shows "\<exists>w' s'. analyze_skeletons stub_ext v s w = Inr (w', s') \<and>
     number_of_filaments s' = Some 1 \<and> lengths s' = Some [5] \<and>
     mask_r s' \<noteq> None \<and> skeleton s' \<noteq> None"
  using assms by (auto simp add: analyze_skeletons_def stub_ext_sel alloc_def)

lemma find_widths_stub:
  assumes "mask_r s \<noteq> None" and "skeleton s \<noteq> None"
  shows "find_widths stub_ext False s w =
     Inr (w, s\<lparr>widths := Some [PyFloat 1], width_fits := Some ((), ())\<rparr>)"
  using assms by (auto simp add: find_widths_def stub_ext_sel Let_def split: option.splits)

lemma run_steps_physical:
  "\<exists>w' s'. run_steps stub_ext False False (Some ''cham'') physical_object quiet_world = Inr (w', s')"
proof -
  obtain s1 where m: "medskel stub_ext True False physical_object quiet_world = Inr (quiet_world, s1)"
    and s1: "skeleton s1 \<noteq> None" "mask_r s1 = Some 0"
    using medskel_physical by blast
  from s1 have "mask_r s1 \<noteq> None" by simp
  from analyze_skeletons_stub [OF s1(1) this, of False quiet_world] obtain w2 s2 where
    a: "analyze_skeletons stub_ext False s1 quiet_world = Inr (w2, s2)"
    and s2: "number_of_filaments s2 = Some 1" "lengths s2 = Some [5]"
      "mask_r s2 \<noteq> None" "skeleton s2 \<noteq> None"
    by blast
  note f = find_widths_stub [OF s2(3,4), of w2]
  have r: "\<exists>s5. results (s2\<lparr>widths := Some [PyFloat 1], width_fits := Some ((), ())\<rparr>) = Inr s5"
    using results_run [of "s2\<lparr>widths := Some [PyFloat 1], width_fits := Some ((), ())\<rparr>" 1
        "[5]" "[PyFloat 1]"] s2(1,2)
    by simp
  show ?thesis
    using m a f r by (auto simp add: run_steps_def create_mask_physical)
qed

lemma pixel_object_sel:
  "mask_r pixel_object = Some 0" "pixel_unit_flag pixel_object"
  by (simp_all add: pixel_object_def blank_def)

lemma medskel_pixel_empty:
  "stdin w = [] \<Longrightarrow> medskel stub_ext True v pixel_object w = Inl EOFError"
  by (simp add: medskel_def width_threshold_def raw_input_def emit_def pixel_object_sel
      stub_ext_sel)

lemma blank_sel:
  "mask_r blank = None" "imgscale blank = 1" "size_thresh blank = None"
  "adapt_thresh blank = None" "smooth_size blank = None" "glob_thresh blank = None"
  by (simp_all add: blank_def)

lemma create_mask_verbose_empty:
  "stdin w = [] \<Longrightarrow> create_mask stub_ext None None None None True blank w = Inl EOFError"
  by (simp add: create_mask_def override_thresholds_def default_size_thresh_def
      default_adapt_thresh_def default_smooth_size_def inspect_mask_def alloc_def blank_sel
      stub_ext_def Let_def)

lemma results_three_filaments:
  "results three_filaments =
     Inr (three_filaments\<lparr>lengths := Some [6, 2, 7],
            widths := Some [PyFloat 1, fit_fail, fit_fail]\<rparr>)"
  by (simp add: three_filaments_def blank_def results_def py_getitem_def reconcile_def
      fit_fail_def upt_conv_Cons)

lemma three_filaments_fields:
  "number_of_filaments three_filaments = Some 3"
  "lengths three_filaments = Some [5, 2, 7]"
  "widths three_filaments = Some [PyFloat 1, PyFloat 3, fit_fail]"
  by (simp_all add: three_filaments_def blank_def)

lemma integer_width_fields:
  "number_of_filaments integer_width = Some 1"
  "lengths integer_width = Some [5]"
  "widths integer_width = Some [PyInt 3]"
  by (simp_all add: integer_width_def blank_def)

lemma init_pixel_result:
  assumes "length (shape (a_image a)) = 2"
    and "a_region_slice a = None \<or> (\<exists>rs. a_region_slice a = Some rs \<and> 4 \<le> length rs)"
    and "a_distance a = None"
    and "a_hdr a ''CDELT2'' = Some c" and "as_number c = Some x" and "x \<noteq> 0"
  shows "\<exists>img. init X a w =
     Inr (emit [Print ''No distance given. Results will be in pixel units.'']
            (adopt_mask (a_mask a) w),
          new_object a img 1 (a_beamwidth a / (x * 3600)) True)"
proof -
  from init_2d [OF assms(1,2), of X w] obtain img where
    i: "init X a w =
     bind_err (resolve_scale (a_hdr a) (a_beamwidth a) (a_distance a) (adopt_mask (a_mask a) w))
       (\<lambda>(w1, scale, bw, flag). Inr (w1, new_object a img scale bw flag))"
    by blast
  have "init X a w =
     Inr (emit [Print ''No distance given. Results will be in pixel units.'']
            (adopt_mask (a_mask a) w),
          new_object a img 1 (a_beamwidth a / (x * 3600)) True)"
    using assms(3-6) by (simp add: i resolve_scale_cases(4))
  then show ?thesis by blast
qed

lemma pixel_args_sel:
  "length (shape (a_image pixel_args)) = 2"
  "a_region_slice pixel_args = None \<or> (\<exists>rs. a_region_slice pixel_args = Some rs \<and> 4 \<le> length rs)"
  "a_distance pixel_args = None"
  "a_hdr pixel_args ''CDELT2'' = Some (PyFloat (1 / 3600))"
  "as_number (PyFloat (1 / 3600)) = Some (1 / 3600)"
  "(1 / 3600 :: real) \<noteq> 0"
  by (simp_all add: pixel_args_def)

lemma masked_args_sel:
  "length (shape (a_image masked_args)) = 2"
  "a_region_slice masked_args = None \<or> (\<exists>rs. a_region_slice masked_args = Some rs \<and> 4 \<le> length rs)"
  "a_distance masked_args = None"
  "a_hdr masked_args ''CDELT2'' = Some (PyFloat (1 / 3600))"
  "as_number (PyFloat (1 / 3600)) = Some (1 / 3600)"
  "(1 / 3600 :: real) \<noteq> 0"
  by (simp_all add: masked_args_def pixel_args_def)

lemma create_mask_stub:
  assumes "mask_r s = None" and "imgscale s \<noteq> 0"
  shows "\<exists>w2 s2. create_mask stub_ext None None None None False s w = Inr (w2, s2)"
  using assms
  by (simp add: create_mask_def override_thresholds_def default_size_thresh_def
      default_adapt_thresh_def default_smooth_size_def stub_ext_def alloc_def Let_def
      split: option.splits)

lemma faint_object_sel:
  "mask_r faint_object = Some 0"
  "medial_axis_distance faint_object = Some \<lparr>shape = [1, 2], elems = [Num 1, Num 0]\<rparr>"
  "skeleton faint_object = Some \<lparr>shape = [1, 2], elems = [Num 1, Num 0]\<rparr>"
  by (simp_all add: faint_object_def blank_def)

lemma find_widths_faint:
  "find_widths failing_ext False faint_object quiet_world =
     Inr (quiet_world, faint_object\<lparr>widths := Some [fit_fail], width_fits := Some ((), ())\<rparr>)"
  by (simp add: find_widths_def faint_object_sel failing_ext_def stub_ext_def Let_def)

lemma failing_ext_sel:
  "gauss_width failing_ext = (\<lambda>img da ds bw sc offs v. Inr ([fit_fail], (), ()))"
  by (simp add: failing_ext_def)

section \<open>Claim C1: the three cases of \<^verbatim>\<open>results\<close>\<close>

text \<open>
  Claim C1. For every filament that \<^verbatim>\<open>results\<close> processes, exactly one of three
  things happens. If the width is a measured number (a float) and the length is strictly
  greater than the width, the reported length is length + width and the width is kept. If
  the width is a float but length \<open>\<le>\<close> width, the length is left as it is and the width
  becomes the failed-fit marker. If the width is not a float, as the failed-fit marker is
  not, both pass through unchanged. The three conditions exclude each other and cover
  every width. The call returns whenever the count is within both lists.
\<close>

theorem results_three_cases:
  assumes "number_of_filaments self = Some n"
    and "lengths self = Some ls" and "widths self = Some ws"
    and "nat n \<le> length ls" and "nat n \<le> length ws" and "i < nat n"
  shows "\<exists>self' ol ow. results self = Inr self' \<and> lengths self' = Some ol \<and> widths self' = Some ow \<and>
    (\<forall>x. ws ! i = PyFloat x \<and> x < ls ! i \<longrightarrow> ol ! i = ls ! i + x \<and> ow ! i = PyFloat x) \<and>
    (\<forall>x. ws ! i = PyFloat x \<and> ls ! i \<le> x \<longrightarrow> ol ! i = ls ! i \<and> ow ! i = fit_fail) \<and>
    (\<not> isinstance_float (ws ! i) \<longrightarrow> ol ! i = ls ! i \<and> ow ! i = ws ! i) \<and>
    ((\<exists>x. ws ! i = PyFloat x \<and> x < ls ! i) \<or> (\<exists>x. ws ! i = PyFloat x \<and> ls ! i \<le> x) \<or>
     \<not> isinstance_float (ws ! i))"
proof -
  have "(\<exists>x. ws ! i = PyFloat x \<and> x < ls ! i) \<or> (\<exists>x. ws ! i = PyFloat x \<and> ls ! i \<le> x) \<or>
     \<not> isinstance_float (ws ! i)"
    by (cases "ws ! i") auto
  then show ?thesis
    using assms by (simp add: results_run reconcile_def split: pyval.splits)
qed

text \<open>
  Three filaments, one for each case: (5, 1.0) becomes (6, 1.0), (2, 3.0) becomes
  (2, marker) and (7, marker) stays.
\<close>

theorem results_three_cases_witness:
  "(\<exists>self' ol ow. results three_filaments = Inr self' \<and> lengths self' = Some ol \<and>
       widths self' = Some ow \<and> ol ! 0 = 6 \<and> ow ! 0 = PyFloat 1) \<and>
   (\<exists>self' ol ow. results three_filaments = Inr self' \<and> lengths self' = Some ol \<and>
       widths self' = Some ow \<and> ol ! 1 = 2 \<and> ow ! 1 = fit_fail) \<and>
   (\<exists>self' ol ow. results three_filaments = Inr self' \<and> lengths self' = Some ol \<and>
       widths self' = Some ow \<and> ol ! 2 = 7 \<and> ow ! 2 = fit_fail)"
  using results_three_cases [OF three_filaments_fields, of 0]
    results_three_cases [OF three_filaments_fields, of 1]
    results_three_cases [OF three_filaments_fields, of 2]
  by (simp add: fit_fail_def)

section \<open>Claim C2: what holds of every record after \<^verbatim>\<open>results\<close>\<close>

text \<open>
  Claim C2 says that after \<^verbatim>\<open>results\<close> every record with a numeric width satisfies
  width \<open>\<le>\<close> reported length - width, and that every other record carries the
  failed-fit marker. A width that comes in as an integer fails the float test of line 481
  and passes through as it is: the length 5 with the integer width 3 is reported as
  (5, 3), a record whose width is a number with 3 > 5 - 3 and is not the marker.
\<close>

theorem results_integer_width_kept:
  "lengths integer_width = Some [5] \<and> widths integer_width = Some [PyInt 3] \<and>
   (\<exists>self'. results integer_width = Inr self' \<and> lengths self' = Some [5] \<and>
      widths self' = Some [PyInt 3]) \<and>
   PyInt 3 \<noteq> fit_fail \<and> \<not> ((3::real) \<le> 5 - 3)"
  by (simp add: integer_width_def blank_def results_def py_getitem_def reconcile_def
      fit_fail_def)

text \<open>
  Claim C2, amended. After \<^verbatim>\<open>results\<close>, a record whose width is a float satisfies
  width \<open>\<le>\<close> reported length - width, where reported length - width is the length
  before the step, which strictly exceeded the width. Every other record has the length
  it had before the step; its width is the failed-fit marker whenever the width came in
  as a float or as the marker, and is the width that came in otherwise.
\<close>

theorem results_accepted_or_marked:
  assumes "number_of_filaments self = Some n"
    and "lengths self = Some ls" and "widths self = Some ws"
    and "nat n \<le> length ls" and "nat n \<le> length ws" and "i < nat n"
  shows "\<exists>self' ol ow. results self = Inr self' \<and> lengths self' = Some ol \<and> widths self' = Some ow \<and>
    (\<forall>x. ow ! i = PyFloat x \<longrightarrow>
       x \<le> ol ! i - x \<and> ol ! i - x = ls ! i \<and> x < ls ! i \<and> ws ! i = PyFloat x) \<and>
    (\<not> isinstance_float (ow ! i) \<longrightarrow>
       ol ! i = ls ! i \<and> (ow ! i = fit_fail \<or> ow ! i = ws ! i)) \<and>
    (isinstance_float (ws ! i) \<or> ws ! i = fit_fail \<longrightarrow>
       isinstance_float (ow ! i) \<or> ow ! i = fit_fail) \<and>
    (\<not> isinstance_float (ws ! i) \<longrightarrow> ow ! i = ws ! i)"
  using assms by (auto simp add: results_run reconcile_def fit_fail_def split: pyval.splits)

text \<open>An accepted record (5, 1.0), a rejected one (2, 3.0) and a failed fit (7, marker).\<close>

theorem results_accepted_or_marked_witness:
  "(\<exists>self' ol ow. results three_filaments = Inr self' \<and> lengths self' = Some ol \<and>
       widths self' = Some ow \<and> ow ! 0 = PyFloat 1 \<and> (1::real) \<le> ol ! 0 - 1 \<and>
       ol ! 0 - 1 = 5 \<and> (1::real) < 5) \<and>
   (\<exists>self' ol ow. results three_filaments = Inr self' \<and> lengths self' = Some ol \<and>
       widths self' = Some ow \<and> ow ! 1 = fit_fail \<and> ol ! 1 = 2) \<and>
   (\<exists>self' ol ow. results three_filaments = Inr self' \<and> lengths self' = Some ol \<and>
       widths self' = Some ow \<and> ow ! 2 = fit_fail \<and> ol ! 2 = 7)"
  using results_accepted_or_marked [OF three_filaments_fields, of 0]
    results_accepted_or_marked [OF three_filaments_fields, of 1]
    results_accepted_or_marked [OF three_filaments_fields, of 2]
  by (simp add: results_three_filaments)

section \<open>Claim C3: the average width from the distance transform\<close>

text \<open>
  Claim C3 says that \<^verbatim>\<open>find_widths\<close> computes one fallback estimate for the whole
  mask, the medial-axis distance averaged over each labelled region, and makes it
  available for the filaments whose fit failed. The comment of line 454 announces that
  replacement. The code computes the averages into the local \<^verbatim>\<open>av_widths\<close> and drops
  them. What is proved is what the code does: whenever \<^verbatim>\<open>find_widths\<close> returns, the
  object differs from the one it was called on in \<^verbatim>\<open>widths\<close> and \<^verbatim>\<open>width_fits\<close> only,
  and both come from \<^verbatim>\<open>gauss_width\<close>; the store and the console are untouched; the
  averages appear in a histogram when \<^verbatim>\<open>verbose\<close> is set and nowhere otherwise.
\<close>

theorem find_widths_discards_average:
  assumes "find_widths X verbose self w = Inr (w', s')"
  shows "\<exists>da ds ws fp fe.
     dist_transform X (labelled_filament_arrays self) (array_offsets self)
       (shape (image_a self)) (pad_size self) = Inr (da, ds) \<and>
     gauss_width X (image_a self) da ds (beamwidth self) (imgscale self) (array_offsets self)
       verbose = Inr (ws, fp, fe) \<and>
     s' = self\<lparr>widths := Some ws, width_fits := Some (fp, fe)\<rparr> \<and>
     heap w' = heap w \<and> next_ref w' = next_ref w \<and> stdin w' = stdin w \<and>
     (if verbose \<and> medial_axis_distance self \<noteq> None
      then \<exists>av. events w' = events w @ [Hist av, Show]
      else events w' = events w)"
  using assms
  by (auto simp add: find_widths_def emit_def bind_err_def Let_def
      split: option.splits sum.splits prod.splits if_splits)

text \<open>
  One filament whose fit fails, with the distance transform at hand: the width stays the
  failed-fit marker, and nothing else is left behind.
\<close>

theorem find_widths_discards_average_witness:
  "medial_axis_distance faint_object \<noteq> None \<and>
   (\<exists>w' s'. find_widths failing_ext False faint_object quiet_world = Inr (w', s') \<and>
      widths s' = Some [fit_fail] \<and> events w' = events quiet_world \<and>
      heap w' = heap quiet_world \<and> stdin w' = stdin quiet_world)"
proof -
  from find_widths_faint obtain w' s' where
    r: "find_widths failing_ext False faint_object quiet_world = Inr (w', s')"
    by simp
  from find_widths_discards_average [OF r]
  have "widths s' = Some [fit_fail] \<and> events w' = events quiet_world \<and>
      heap w' = heap quiet_world \<and> stdin w' = stdin quiet_world"
    by (clarsimp simp add: failing_ext_sel)
  with r faint_object_sel(2) show ?thesis by blast
qed

section \<open>Claim C4: the image must have two dimensions\<close>

text \<open>
  Claim C4. For every image whose number of dimensions is not exactly 2, the constructor
  fails with the error of its shape check (a TypeError in this code, the specification's
  InputShapeError); for every image of exactly 2 dimensions that check does not fail.
\<close>

theorem init_rejects_non_2d:
  "(length (shape (a_image a)) \<noteq> 2 \<longrightarrow> init X a w = Inl TypeError) \<and>
   (length (shape (a_image a)) = 2 \<longrightarrow> validate_image (a_image a) = Inr ())"
  by (auto simp add: init_def validate_image_def Let_def)

text \<open>A three-dimensional image is refused; a two-dimensional one passes and is built.\<close>

theorem init_rejects_non_2d_witness:
  "init stub_ext cube_args quiet_world = Inl TypeError \<and>
   validate_image (a_image pixel_args) = Inr () \<and>
   (\<exists>w' self. init stub_ext pixel_args quiet_world = Inr (w', self))"
proof -
  have 3: "length (shape (a_image cube_args)) \<noteq> 2"
    by (simp add: cube_args_def pixel_args_def)
  from init_rejects_non_2d [of cube_args stub_ext quiet_world] 3
  have a: "init stub_ext cube_args quiet_world = Inl TypeError" by simp
  from init_rejects_non_2d [of pixel_args stub_ext quiet_world] pixel_args_sel(1)
  have b: "validate_image (a_image pixel_args) = Inr ()" by simp
  from init_pixel_result [OF pixel_args_sel, of stub_ext quiet_world]
  have c: "\<exists>w' self. init stub_ext pixel_args quiet_world = Inr (w', self)" by blast
  from a b c show ?thesis by blast
qed

section \<open>Claim C5: the header and the errors it causes\<close>

text \<open>
  Claim C5 says that a header without the scale entry is fatal when a distance is given,
  and that nothing else about the header is. With no distance given the constructor reads
  \<^verbatim>\<open>hdr["CDELT2"]\<close> all the same (line 117): an empty header ends it with a KeyError, and
  a scale of zero with a ZeroDivisionError.
\<close>

theorem init_pixel_mode_reads_header:
  "a_distance bare_args = None \<and>
   init stub_ext bare_args quiet_world = Inl (KeyError ''CDELT2'') \<and>
   a_distance zero_scale_args = None \<and>
   init stub_ext zero_scale_args quiet_world = Inl ZeroDivisionError"
  by (simp add: init_def validate_image_def select_region_def resolve_scale_def py_lookup_def
      bare_args_def zero_scale_args_def pixel_args_def Let_def)

text \<open>
  Claim C5, amended. For a two-dimensional image and a region that is absent or has its
  four bounds: the constructor fails with a KeyError (the specification's
  ConfigurationError) whenever the header has no \<^verbatim>\<open>CDELT2\<close>, with or without a distance;
  it fails with a TypeError when \<^verbatim>\<open>CDELT2\<close> is not a number, and with a
  ZeroDivisionError when it is zero and no distance is given; in every other case it
  returns an object.
\<close>

theorem init_header_failures:
  assumes "length (shape (a_image a)) = 2"
    and "a_region_slice a = None \<or> (\<exists>rs. a_region_slice a = Some rs \<and> 4 \<le> length rs)"
  shows "(a_hdr a ''CDELT2'' = None \<longrightarrow> init X a w = Inl (KeyError ''CDELT2'')) \<and>
    (\<forall>c. a_hdr a ''CDELT2'' = Some c \<and> as_number c = None \<longrightarrow> init X a w = Inl TypeError) \<and>
    (\<forall>c. a_hdr a ''CDELT2'' = Some c \<and> as_number c = Some 0 \<and> a_distance a = None \<longrightarrow>
        init X a w = Inl ZeroDivisionError) \<and>
    (\<forall>c x. a_hdr a ''CDELT2'' = Some c \<and> as_number c = Some x \<and>
        (x \<noteq> 0 \<or> a_distance a \<noteq> None) \<longrightarrow>
        (\<exists>w' self. init X a w = Inr (w', self)))"
proof -
  from init_2d [OF assms, of X w] obtain img where
    i: "init X a w =
     bind_err (resolve_scale (a_hdr a) (a_beamwidth a) (a_distance a) (adopt_mask (a_mask a) w))
       (\<lambda>(w1, scale, bw, flag). Inr (w1, new_object a img scale bw flag))"
    by blast
  have 1: "a_hdr a ''CDELT2'' = None \<longrightarrow> init X a w = Inl (KeyError ''CDELT2'')"
    by (simp add: i resolve_scale_cases(1))
  have 2: "\<forall>c. a_hdr a ''CDELT2'' = Some c \<and> as_number c = None \<longrightarrow> init X a w = Inl TypeError"
    by (simp add: i resolve_scale_cases(2))
  have 3: "\<forall>c. a_hdr a ''CDELT2'' = Some c \<and> as_number c = Some 0 \<and> a_distance a = None \<longrightarrow>
        init X a w = Inl ZeroDivisionError"
    by (simp add: i resolve_scale_cases(3))
  have 4: "\<forall>c x. a_hdr a ''CDELT2'' = Some c \<and> as_number c = Some x \<and>
        (x \<noteq> 0 \<or> a_distance a \<noteq> None) \<longrightarrow> (\<exists>w' self. init X a w = Inr (w', self))"
  proof (intro allI impI)
    fix c x
    assume h: "a_hdr a ''CDELT2'' = Some c \<and> as_number c = Some x \<and>
        (x \<noteq> 0 \<or> a_distance a \<noteq> None)"
    show "\<exists>w' self. init X a w = Inr (w', self)"
    proof (cases "a_distance a")
      case None
      with h show ?thesis by (simp add: i resolve_scale_cases(4))
    next
      case (Some dst)
      with h show ?thesis by (simp add: i resolve_scale_cases(5))
    qed
  qed
  from 1 2 3 4 show ?thesis by blast
qed

text \<open>One input for each of the four cases.\<close>

theorem init_header_failures_witness:
  "init stub_ext (bare_args\<lparr>a_distance := Some 160\<rparr>) quiet_world = Inl (KeyError ''CDELT2'') \<and>
   init stub_ext (pixel_args\<lparr>a_hdr := [''CDELT2'' \<mapsto> PyStr ''deg'']\<rparr>) quiet_world = Inl TypeError \<and>
   init stub_ext zero_scale_args quiet_world = Inl ZeroDivisionError \<and>
   (\<exists>w' self. init stub_ext physical_args quiet_world = Inr (w', self))"
proof -
  have g: "length (shape (a_image (bare_args\<lparr>a_distance := Some 160\<rparr>))) = 2"
    "a_region_slice (bare_args\<lparr>a_distance := Some 160\<rparr>) = None \<or>
     (\<exists>rs. a_region_slice (bare_args\<lparr>a_distance := Some 160\<rparr>) = Some rs \<and> 4 \<le> length rs)"
    "a_hdr (bare_args\<lparr>a_distance := Some 160\<rparr>) ''CDELT2'' = None"
    by (simp_all add: bare_args_def pixel_args_def)
  from init_header_failures [OF g(1,2), of stub_ext quiet_world, THEN conjunct1] g(3)
  have 1: "init stub_ext (bare_args\<lparr>a_distance := Some 160\<rparr>) quiet_world =
      Inl (KeyError ''CDELT2'')"
    by (rule mp)
  have h: "length (shape (a_image (pixel_args\<lparr>a_hdr := [''CDELT2'' \<mapsto> PyStr ''deg'']\<rparr>))) = 2"
    "a_region_slice (pixel_args\<lparr>a_hdr := [''CDELT2'' \<mapsto> PyStr ''deg'']\<rparr>) = None \<or>
     (\<exists>rs. a_region_slice (pixel_args\<lparr>a_hdr := [''CDELT2'' \<mapsto> PyStr ''deg'']\<rparr>) = Some rs \<and>
        4 \<le> length rs)"
    "a_hdr (pixel_args\<lparr>a_hdr := [''CDELT2'' \<mapsto> PyStr ''deg'']\<rparr>) ''CDELT2'' = Some (PyStr ''deg'') \<and>
     as_number (PyStr ''deg'') = None"
    by (simp_all add: pixel_args_def)
  from init_header_failures [OF h(1,2), of stub_ext quiet_world, THEN conjunct2, THEN conjunct1,
      rule_format, OF h(3)]
  have 2: "init stub_ext (pixel_args\<lparr>a_hdr := [''CDELT2'' \<mapsto> PyStr ''deg'']\<rparr>) quiet_world =
      Inl TypeError" .
  have k: "length (shape (a_image zero_scale_args)) = 2"
    "a_region_slice zero_scale_args = None \<or>
     (\<exists>rs. a_region_slice zero_scale_args = Some rs \<and> 4 \<le> length rs)"
    "a_hdr zero_scale_args ''CDELT2'' = Some (PyFloat 0) \<and> as_number (PyFloat 0) = Some 0 \<and>
     a_distance zero_scale_args = None"
    by (simp_all add: zero_scale_args_def pixel_args_def)
  from init_header_failures [OF k(1,2), of stub_ext quiet_world, THEN conjunct2, THEN conjunct2,
      THEN conjunct1, rule_format, OF k(3)]
  have 3: "init stub_ext zero_scale_args quiet_world = Inl ZeroDivisionError" .
  have p: "length (shape (a_image physical_args)) = 2"
    "a_region_slice physical_args = None \<or>
     (\<exists>rs. a_region_slice physical_args = Some rs \<and> 4 \<le> length rs)"
    "a_hdr physical_args ''CDELT2'' = Some (PyFloat (1 / 3600)) \<and>
     as_number (PyFloat (1 / 3600)) = Some (1 / 3600) \<and>
     ((1 / 3600 :: real) \<noteq> 0 \<or> a_distance physical_args \<noteq> None)"
    by (simp_all add: physical_args_def pixel_args_def)
  from init_header_failures [OF p(1,2), of stub_ext quiet_world, THEN conjunct2, THEN conjunct2,
      THEN conjunct2, rule_format, OF p(3)]
  have 4: "\<exists>w' self. init stub_ext physical_args quiet_world = Inr (w', self)" .
  from 1 2 3 4 show ?thesis by blast
qed

section \<open>Claim C6: construction without a distance\<close>

text \<open>
  Claim C6 says that construction succeeds for every input that gives no distance. A
  two-dimensional image with a header that names the object but has no \<^verbatim>\<open>CDELT2\<close> is
  such an input, and the constructor fails on it.
\<close>

theorem init_without_distance_fails:
  "a_distance named_args = None \<and> length (shape (a_image named_args)) = 2 \<and>
   init stub_ext named_args quiet_world = Inl (KeyError ''CDELT2'')"
  by (simp add: init_def validate_image_def select_region_def resolve_scale_def py_lookup_def
      named_args_def pixel_args_def Let_def)

text \<open>
  Claim C6, amended. For every two-dimensional image given without a distance, whose
  header holds a number other than zero under \<^verbatim>\<open>CDELT2\<close> and whose region is absent or
  has its four bounds, construction succeeds in pixel-unit mode: the image scale is 1.0,
  the pixel-unit flag is set, the beam width is divided by \<^verbatim>\<open>CDELT2 * 3600\<close>, and the
  console is not read. The thresholds that \<^verbatim>\<open>create_mask\<close> has to fill in are then
  computed from the scale 1.0, which rounds each of them to 0 pixels, and the width
  threshold of \<^verbatim>\<open>medskel\<close> is 2 pixels when the prompt is answered with an empty line.
\<close>

theorem init_pixel_mode:
  assumes "length (shape (a_image a)) = 2"
    and "a_region_slice a = None \<or> (\<exists>rs. a_region_slice a = Some rs \<and> 4 \<le> length rs)"
    and "a_distance a = None"
    and "a_hdr a ''CDELT2'' = Some c" and "as_number c = Some x" and "x \<noteq> 0"
  shows "\<exists>w' self. init X a w = Inr (w', self) \<and>
     imgscale self = 1 \<and> pixel_unit_flag self \<and>
     beamwidth self = a_beamwidth a / (x * 3600) \<and>
     stdin w' = stdin w \<and>
     (\<forall>verbose w1 w2 s2.
        a_mask a = None \<and> create_mask X None None None None verbose self w1 = Inr (w2, s2) \<longrightarrow>
        (a_size_thresh a = None \<longrightarrow>
           size_thresh s2 = Some (py_round (0.1 * pi * 0.5 * (3 / 40) * 1 powi (- 2))) \<and>
           size_thresh s2 = Some 0) \<and>
        (a_adapt_thresh a = None \<longrightarrow>
           adapt_thresh s2 = Some (py_round (0.2 / 1)) \<and> adapt_thresh s2 = Some 0) \<and>
        (a_smooth_size a = None \<longrightarrow>
           smooth_size s2 = Some (py_round (0.05 / 1)) \<and> smooth_size s2 = Some 0)) \<and>
     (\<forall>w1 rest. stdin w1 = '''' # rest \<longrightarrow>
        (\<exists>w2. width_threshold X self w1 = Inr (w2, 2) \<and> stdin w2 = rest))"
proof -
  from init_2d [OF assms(1,2), of X w] obtain img where
    i: "init X a w =
     bind_err (resolve_scale (a_hdr a) (a_beamwidth a) (a_distance a) (adopt_mask (a_mask a) w))
       (\<lambda>(w1, scale, bw, flag). Inr (w1, new_object a img scale bw flag))"
    by blast
  define w' where "w' = emit [Print ''No distance given. Results will be in pixel units.'']
    (adopt_mask (a_mask a) w)"
  define self :: "'a fil_finder_2D" where
    "self = new_object a img 1 (a_beamwidth a / (x * 3600)) True"
  have r: "init X a w = Inr (w', self)"
    using assms(3-6) by (simp add: i resolve_scale_cases(4) w'_def self_def)
  have f: "imgscale self = 1" "pixel_unit_flag self"
    "beamwidth self = a_beamwidth a / (x * 3600)" "mask_r self = a_mask a"
    "size_thresh self = a_size_thresh a" "adapt_thresh self = a_adapt_thresh a"
    "smooth_size self = a_smooth_size a"
    by (simp_all add: self_def new_object_def)
  have s: "stdin w' = stdin w"
    by (simp add: w'_def emit_def adopt_mask_def split: option.splits)
  have t: "\<forall>verbose w1 w2 s2.
        a_mask a = None \<and> create_mask X None None None None verbose self w1 = Inr (w2, s2) \<longrightarrow>
        (a_size_thresh a = None \<longrightarrow>
           size_thresh s2 = Some (py_round (0.1 * pi * 0.5 * (3 / 40) * 1 powi (- 2))) \<and>
           size_thresh s2 = Some 0) \<and>
        (a_adapt_thresh a = None \<longrightarrow>
           adapt_thresh s2 = Some (py_round (0.2 / 1)) \<and> adapt_thresh s2 = Some 0) \<and>
        (a_smooth_size a = None \<longrightarrow>
           smooth_size s2 = Some (py_round (0.05 / 1)) \<and> smooth_size s2 = Some 0)"
  proof (intro allI impI)
    fix verbose w1 w2 s2
    assume h: "a_mask a = None \<and> create_mask X None None None None verbose self w1 = Inr (w2, s2)"
    then have m: "mask_r self = None" using f(4) by simp
    note d = create_mask_defaults [OF conjunct2 [OF h] m]
    show "(a_size_thresh a = None \<longrightarrow>
           size_thresh s2 = Some (py_round (0.1 * pi * 0.5 * (3 / 40) * 1 powi (- 2))) \<and>
           size_thresh s2 = Some 0) \<and>
        (a_adapt_thresh a = None \<longrightarrow>
           adapt_thresh s2 = Some (py_round (0.2 / 1)) \<and> adapt_thresh s2 = Some 0) \<and>
        (a_smooth_size a = None \<longrightarrow>
           smooth_size s2 = Some (py_round (0.05 / 1)) \<and> smooth_size s2 = Some 0)"
    proof (intro conjI impI)
      assume n: "a_size_thresh a = None"
      then have e: "default_size_thresh self = Inr 0"
        using pixel_defaults(1) [OF f(1)] f(5) by simp
      with d show z: "size_thresh s2 = Some 0" by auto
      have "default_size_thresh self = Inr (py_round (0.1 * pi * 0.5 * (3 / 40) * 1 powi (- 2)))"
        using n f(1,5) by (simp add: default_size_thresh_def)
      with e z show "size_thresh s2 = Some (py_round (0.1 * pi * 0.5 * (3 / 40) * 1 powi (- 2)))"
        by simp
    next
      assume n: "a_adapt_thresh a = None"
      then have e: "default_adapt_thresh self = Inr 0"
        using pixel_defaults(2) [OF f(1)] f(6) by simp
      with d show z: "adapt_thresh s2 = Some 0" by auto
      have "default_adapt_thresh self = Inr (py_round (0.2 / 1))"
        using n f(1,6) by (simp add: default_adapt_thresh_def)
      with e z show "adapt_thresh s2 = Some (py_round (0.2 / 1))" by simp
    next
      assume n: "a_smooth_size a = None"
      then have e: "default_smooth_size self = Inr 0"
        using pixel_defaults(3) [OF f(1)] f(7) by simp
      with d show z: "smooth_size s2 = Some 0" by auto
      have "default_smooth_size self = Inr (py_round (0.05 / 1))"
        using n f(1,7) by (simp add: default_smooth_size_def)
      with e z show "smooth_size s2 = Some (py_round (0.05 / 1))" by simp
    qed
  qed
  have p: "\<forall>w1 rest. stdin w1 = '''' # rest \<longrightarrow>
        (\<exists>w2. width_threshold X self w1 = Inr (w2, 2) \<and> stdin w2 = rest)"
    using f(2) by (simp add: width_threshold_def raw_input_def emit_def)
  from r f(1,2,3) s t p show ?thesis by blast
qed

text \<open>A beam of 15 arcseconds on pixels of one arcsecond.\<close>

theorem init_pixel_mode_witness:
  "\<exists>w' self. init stub_ext pixel_args quiet_world = Inr (w', self) \<and>
     imgscale self = 1 \<and> pixel_unit_flag self \<and> beamwidth self = 15 \<and> stdin w' = [] \<and>
     (\<exists>w2 s2. create_mask stub_ext None None None None False self w' = Inr (w2, s2) \<and>
        size_thresh s2 = Some 0 \<and> adapt_thresh s2 = Some 0 \<and> smooth_size s2 = Some 0) \<and>
     (\<exists>w2. width_threshold stub_ext self (w'\<lparr>stdin := ['''']\<rparr>) = Inr (w2, 2) \<and> stdin w2 = [])"
proof -
  from init_pixel_mode [OF pixel_args_sel, of stub_ext quiet_world]
  obtain w' where "\<exists>self. init stub_ext pixel_args quiet_world = Inr (w', self) \<and>
     imgscale self = 1 \<and> pixel_unit_flag self \<and>
     beamwidth self = a_beamwidth pixel_args / (1 / 3600 * 3600) \<and>
     stdin w' = stdin quiet_world \<and>
     (\<forall>verbose w1 w2 s2.
        a_mask pixel_args = None \<and>
        create_mask stub_ext None None None None verbose self w1 = Inr (w2, s2) \<longrightarrow>
        (a_size_thresh pixel_args = None \<longrightarrow>
           size_thresh s2 = Some (py_round (0.1 * pi * 0.5 * (3 / 40) * 1 powi (- 2))) \<and>
           size_thresh s2 = Some 0) \<and>
        (a_adapt_thresh pixel_args = None \<longrightarrow>
           adapt_thresh s2 = Some (py_round (0.2 / 1)) \<and> adapt_thresh s2 = Some 0) \<and>
        (a_smooth_size pixel_args = None \<longrightarrow>
           smooth_size s2 = Some (py_round (0.05 / 1)) \<and> smooth_size s2 = Some 0)) \<and>
     (\<forall>w1 rest. stdin w1 = '''' # rest \<longrightarrow>
        (\<exists>w2. width_threshold stub_ext self w1 = Inr (w2, 2) \<and> stdin w2 = rest))" ..
  then obtain self where all: "init stub_ext pixel_args quiet_world = Inr (w', self) \<and>
     imgscale self = 1 \<and> pixel_unit_flag self \<and>
     beamwidth self = a_beamwidth pixel_args / (1 / 3600 * 3600) \<and>
     stdin w' = stdin quiet_world \<and>
     (\<forall>verbose w1 w2 s2.
        a_mask pixel_args = None \<and>
        create_mask stub_ext None None None None verbose self w1 = Inr (w2, s2) \<longrightarrow>
        (a_size_thresh pixel_args = None \<longrightarrow>
           size_thresh s2 = Some (py_round (0.1 * pi * 0.5 * (3 / 40) * 1 powi (- 2))) \<and>
           size_thresh s2 = Some 0) \<and>
        (a_adapt_thresh pixel_args = None \<longrightarrow>
           adapt_thresh s2 = Some (py_round (0.2 / 1)) \<and> adapt_thresh s2 = Some 0) \<and>
        (a_smooth_size pixel_args = None \<longrightarrow>
           smooth_size s2 = Some (py_round (0.05 / 1)) \<and> smooth_size s2 = Some 0)) \<and>
     (\<forall>w1 rest. stdin w1 = '''' # rest \<longrightarrow>
        (\<exists>w2. width_threshold stub_ext self w1 = Inr (w2, 2) \<and> stdin w2 = rest))" ..
  note r = all [THEN conjunct1]
  note f1 = all [THEN conjunct2, THEN conjunct1]
  note f2 = all [THEN conjunct2, THEN conjunct2, THEN conjunct1]
  note f3 = all [THEN conjunct2, THEN conjunct2, THEN conjunct2, THEN conjunct1]
  note f4 = all [THEN conjunct2, THEN conjunct2, THEN conjunct2, THEN conjunct2, THEN conjunct1]
  note t = all [THEN conjunct2, THEN conjunct2, THEN conjunct2, THEN conjunct2, THEN conjunct2,
      THEN conjunct1, rule_format]
  note p = all [THEN conjunct2, THEN conjunct2, THEN conjunct2, THEN conjunct2, THEN conjunct2,
      THEN conjunct2, rule_format]
  have m: "mask_r self = None"
    using init_Inr_D(3) [OF r] by (simp add: pixel_args_def)
  from f1 have nz: "imgscale self \<noteq> 0" by simp
  from create_mask_stub [OF m nz, of w'] obtain w2 s2 where
    c: "create_mask stub_ext None None None None False self w' = Inr (w2, s2)"
    by blast
  have a: "a_mask pixel_args = None \<and>
      create_mask stub_ext None None None None False self w' = Inr (w2, s2)"
    "a_size_thresh pixel_args = None"
    "a_adapt_thresh pixel_args = None" "a_smooth_size pixel_args = None"
    using c by (simp_all add: pixel_args_def)
  note t1 = t [OF a(1)]
  from t1 [THEN conjunct1, THEN mp, OF a(2)] have z1: "size_thresh s2 = Some 0"
    by (rule conjunct2)
  from t1 [THEN conjunct2, THEN conjunct1, THEN mp, OF a(3)] have z2: "adapt_thresh s2 = Some 0"
    by (rule conjunct2)
  from t1 [THEN conjunct2, THEN conjunct2, THEN mp, OF a(4)] have z3: "smooth_size s2 = Some 0"
    by (rule conjunct2)
  have "stdin (w'\<lparr>stdin := ['''']\<rparr>) = '''' # []" by simp
  from p [OF this]
  have wt: "\<exists>w2. width_threshold stub_ext self (w'\<lparr>stdin := ['''']\<rparr>) = Inr (w2, 2) \<and>
      stdin w2 = []" .
  have b: "beamwidth self = 15" using f3 by (simp add: pixel_args_def)
  have s: "stdin w' = []" using f4 by (simp add: quiet_world_def)
  from c z1 z2 z3
  have cm: "\<exists>w2 s2. create_mask stub_ext None None None None False self w' = Inr (w2, s2) \<and>
        size_thresh s2 = Some 0 \<and> adapt_thresh s2 = Some 0 \<and> smooth_size s2 = Some 0"
    by blast
  from r f1 f2 b s cm wt show ?thesis by blast
qed

section \<open>Claim C7: waiting for the console\<close>

text \<open>
  Claim C7 says that no step ever waits for a human. In pixel-unit mode \<^verbatim>\<open>medskel\<close>
  calls \<^verbatim>\<open>raw_input\<close> (line 286): with nothing typed, it and the whole run end with
  EOFError; with one empty line typed it returns, having asked and having taken the line.
  With \<^verbatim>\<open>verbose\<close> set and no mask supplied, \<^verbatim>\<open>create_mask\<close> asks as well (line 242).
\<close>

theorem medskel_waits_for_console:
  "pixel_unit_flag pixel_object \<and>
   medskel stub_ext True False pixel_object quiet_world = Inl EOFError \<and>
   run_steps stub_ext False False (Some ''cham'') pixel_object quiet_world = Inl EOFError \<and>
   (\<exists>w' s'. medskel stub_ext True False pixel_object (quiet_world\<lparr>stdin := ['''']\<rparr>) = Inr (w', s') \<and>
      stdin w' = [] \<and>
      events w' = [Print ''Setting arbitrary width threshold to 2 pixels'',
                   RawInput ''Enter threshold change or pass: '']) \<and>
   create_mask stub_ext None None None None True blank quiet_world = Inl EOFError"
proof -
  have e: "stdin quiet_world = []" "events quiet_world = []"
    by (simp_all add: quiet_world_def)
  have 1: "medskel stub_ext True False pixel_object quiet_world = Inl EOFError"
    by (rule medskel_pixel_empty [OF e(1)])
  have c: "create_mask stub_ext None None None None False pixel_object quiet_world =
      Inr (quiet_world, pixel_object)"
    by (simp add: create_mask_def pixel_object_sel)
  have 2: "run_steps stub_ext False False (Some ''cham'') pixel_object quiet_world = Inl EOFError"
    by (simp add: run_steps_def c 1)
  have 3: "\<exists>w' s'. medskel stub_ext True False pixel_object (quiet_world\<lparr>stdin := ['''']\<rparr>) =
      Inr (w', s') \<and> stdin w' = [] \<and>
      events w' = [Print ''Setting arbitrary width threshold to 2 pixels'',
                   RawInput ''Enter threshold change or pass: '']"
    by (simp add: medskel_def width_threshold_def raw_input_def emit_def pixel_object_sel
        stub_ext_sel e)
  have 4: "create_mask stub_ext None None None None True blank quiet_world = Inl EOFError"
    by (rule create_mask_verbose_empty [OF e(1)])
  from pixel_object_sel(2) 1 2 3 4 show ?thesis by blast
qed

text \<open>
  Claim C7, amended. \<^verbatim>\<open>create_mask\<close> does not read the console when \<^verbatim>\<open>verbose\<close> is off
  or a mask is already there; \<^verbatim>\<open>medskel\<close> does not when the object is not in pixel-unit
  mode or no distance transform is asked for; \<^verbatim>\<open>analyze_skeletons\<close> and \<^verbatim>\<open>find_widths\<close>
  never do, as far as their own code goes; \<^verbatim>\<open>results\<close> has no access to it. So for an
  object that is not in pixel-unit mode, with \<^verbatim>\<open>verbose\<close> off or a mask supplied, the
  five steps of a run give the same outcome whatever is typed, leave the typed lines
  where they are and ask nothing.
\<close>

theorem steps_without_console:
  "(\<not> verbose \<or> mask_r self \<noteq> None \<longrightarrow>
      create_mask X glob_arg adapt_arg smooth_arg size_arg verbose self (w\<lparr>stdin := xs\<rparr>) =
      put_stdin xs (create_mask X glob_arg adapt_arg smooth_arg size_arg verbose self w)) \<and>
   (\<not> pixel_unit_flag self \<or> \<not> return_distance \<longrightarrow>
      medskel X return_distance verbose self (w\<lparr>stdin := xs\<rparr>) =
      put_stdin xs (medskel X return_distance verbose self w)) \<and>
   analyze_skeletons X verbose self (w\<lparr>stdin := xs\<rparr>) =
      put_stdin xs (analyze_skeletons X verbose self w) \<and>
   find_widths X verbose self (w\<lparr>stdin := xs\<rparr>) = put_stdin xs (find_widths X verbose self w) \<and>
   (\<not> pixel_unit_flag self \<and> (\<not> verbose \<or> mask_r self \<noteq> None) \<longrightarrow>
      run_steps X graphviz verbose save_name self (w\<lparr>stdin := xs\<rparr>) =
      put_stdin xs (run_steps X graphviz verbose save_name self w) \<and>
      (\<forall>w' s'. run_steps X graphviz verbose save_name self w = Inr (w', s') \<longrightarrow>
         stdin w' = stdin w \<and> filter is_input (events w') = filter is_input (events w)))"
proof (intro conjI impI allI)
  assume "\<not> verbose \<or> mask_r self \<noteq> None"
  then show "create_mask X glob_arg adapt_arg smooth_arg size_arg verbose self (w\<lparr>stdin := xs\<rparr>) =
      put_stdin xs (create_mask X glob_arg adapt_arg smooth_arg size_arg verbose self w)"
    by (rule create_mask_stdin)
next
  assume "\<not> pixel_unit_flag self \<or> \<not> return_distance"
  then show "medskel X return_distance verbose self (w\<lparr>stdin := xs\<rparr>) =
      put_stdin xs (medskel X return_distance verbose self w)"
    by (rule medskel_stdin)
next
  show "analyze_skeletons X verbose self (w\<lparr>stdin := xs\<rparr>) =
      put_stdin xs (analyze_skeletons X verbose self w)"
    by (rule analyze_skeletons_stdin)
next
  show "find_widths X verbose self (w\<lparr>stdin := xs\<rparr>) = put_stdin xs (find_widths X verbose self w)"
    by (rule find_widths_stdin)
next
  assume h: "\<not> pixel_unit_flag self \<and> (\<not> verbose \<or> mask_r self \<noteq> None)"
  then show "run_steps X graphviz verbose save_name self (w\<lparr>stdin := xs\<rparr>) =
      put_stdin xs (run_steps X graphviz verbose save_name self w)"
    by (simp add: run_steps_stdin)
next
  fix w' s'
  assume h: "\<not> pixel_unit_flag self \<and> (\<not> verbose \<or> mask_r self \<noteq> None)"
    and r: "run_steps X graphviz verbose save_name self w = Inr (w', s')"
  from h have 1: "\<not> pixel_unit_flag self" and 2: "\<not> verbose \<or> mask_r self \<noteq> None"
    by simp_all
  from run_steps_quiet [OF 1 2 r] show "stdin w' = stdin w" by simp
next
  fix w' s'
  assume h: "\<not> pixel_unit_flag self \<and> (\<not> verbose \<or> mask_r self \<noteq> None)"
    and r: "run_steps X graphviz verbose save_name self w = Inr (w', s')"
  from h have 1: "\<not> pixel_unit_flag self" and 2: "\<not> verbose \<or> mask_r self \<noteq> None"
    by simp_all
  from run_steps_quiet [OF 1 2 r]
  show "filter is_input (events w') = filter is_input (events w)" by simp
qed

text \<open>A run in physical units that completes with nothing typed.\<close>

theorem steps_without_console_witness:
  "run_steps stub_ext False False (Some ''cham'') physical_object (quiet_world\<lparr>stdin := [''5'']\<rparr>) =
     put_stdin [''5''] (run_steps stub_ext False False (Some ''cham'') physical_object quiet_world) \<and>
   (\<exists>w' s'. run_steps stub_ext False False (Some ''cham'') physical_object quiet_world = Inr (w', s') \<and>
      stdin w' = [] \<and> filter is_input (events w') = [])"
proof -
  have p: "\<not> pixel_unit_flag physical_object \<and> (\<not> False \<or> mask_r physical_object \<noteq> None)"
    by (simp add: physical_object_sel)
  from run_steps_physical obtain w' s' where
    r: "run_steps stub_ext False False (Some ''cham'') physical_object quiet_world = Inr (w', s')"
    by blast
  note t = steps_without_console [where verbose = False and self = physical_object
      and X = stub_ext and w = quiet_world and xs = "[''5'']" and graphviz = False
      and save_name = "Some ''cham''", THEN conjunct2, THEN conjunct2, THEN conjunct2,
      THEN conjunct2, THEN mp, OF p]
  from t have 1: "run_steps stub_ext False False (Some ''cham'') physical_object
        (quiet_world\<lparr>stdin := [''5'']\<rparr>) =
     put_stdin [''5''] (run_steps stub_ext False False (Some ''cham'') physical_object quiet_world)"
    by (rule conjunct1)
  from t r have "stdin w' = stdin quiet_world \<and>
      filter is_input (events w') = filter is_input (events quiet_world)"
    by simp
  then have 2: "stdin w' = [] \<and> filter is_input (events w') = []"
    by (simp add: quiet_world_def)
  from 1 2 r show ?thesis by blast
qed

section \<open>Claim C8: the caller's mask is rewritten\<close>

text \<open>
  Claim C8. When a mask is supplied to the constructor, the caller's array is changed in
  place: the object holds the caller's own reference, and the array behind it has every
  NaN entry replaced by 0.0 and every other entry, its shape and all other arrays as they
  were.
\<close>

theorem init_mutates_supplied_mask:
  assumes "init X a w = Inr (w', self)" and "a_mask a = Some r"
  shows "mask_r self = Some r \<and>
    shape (heap w' r) = shape (heap w r) \<and>
    length (elems (heap w' r)) = length (elems (heap w r)) \<and>
    (\<forall>i < length (elems (heap w r)).
       elems (heap w' r) ! i = (if elems (heap w r) ! i = NaN then Num 0 else elems (heap w r) ! i)) \<and>
    NaN \<notin> set (elems (heap w' r)) \<and>
    (\<forall>r'. r' \<noteq> r \<longrightarrow> heap w' r' = heap w r')"
proof -
  from init_Inr_D(2) [OF assms(1)] obtain sc bw fl where
    "resolve_scale (a_hdr a) (a_beamwidth a) (a_distance a) (adopt_mask (a_mask a) w) = Inr (w', sc, bw, fl)"
    by blast
  then have "heap w' = heap (adopt_mask (a_mask a) w)"
    using resolve_scale_heap by blast
  then have h: "heap w' = (heap w)(r := nan_to_zero (heap w r))"
    using assms(2) by (simp add: adopt_mask_def)
  show ?thesis
    using init_Inr_D(3) [OF assms(1)] assms(2)
    by (auto simp add: h nan_to_zero_def)
qed

text \<open>A mask [1, NaN] becomes [1, 0] behind the caller's reference.\<close>

theorem init_mutates_supplied_mask_witness:
  "\<exists>w' self. init stub_ext masked_args quiet_world = Inr (w', self) \<and>
     mask_r self = Some 0 \<and>
     elems (heap quiet_world 0) = [Num 1, NaN] \<and>
     elems (heap w' 0) ! 0 = Num 1 \<and> elems (heap w' 0) ! 1 = Num 0 \<and>
     length (elems (heap w' 0)) = 2 \<and> NaN \<notin> set (elems (heap w' 0))"
proof -
  from init_pixel_result [OF masked_args_sel, of stub_ext quiet_world] obtain w' self where
    r: "init stub_ext masked_args quiet_world = Inr (w', self)"
    by blast
  have m: "a_mask masked_args = Some 0" by (simp add: masked_args_def)
  have q: "elems (heap quiet_world 0) = [Num 1, NaN]" by (simp add: quiet_world_def)
  from init_mutates_supplied_mask [OF r m] q
  have "mask_r self = Some 0 \<and>
     elems (heap w' 0) ! 0 = Num 1 \<and> elems (heap w' 0) ! 1 = Num 0 \<and>
     length (elems (heap w' 0)) = 2 \<and> NaN \<notin> set (elems (heap w' 0))"
    by simp
  with r q show ?thesis by blast
qed

section \<open>Claim C9: only a float counts as a measured width\<close>

text \<open>
  Claim C9. \<^verbatim>\<open>results\<close> decides by the float test alone: for every filament whose
  width is a number but not a float (an integer), the length and the width pass through
  unchanged, whatever their order; the length is not corrected.
\<close>

theorem results_float_test_only:
  assumes "number_of_filaments self = Some n"
    and "lengths self = Some ls" and "widths self = Some ws"
    and "nat n \<le> length ls" and "nat n \<le> length ws" and "i < nat n"
    and "ws ! i = PyInt k"
  shows "\<exists>self' ol ow. results self = Inr self' \<and> lengths self' = Some ol \<and> widths self' = Some ow \<and>
    ol ! i = ls ! i \<and> ow ! i = PyInt k"
  using assms by (simp add: results_run reconcile_def)

text \<open>The length 5 with the integer width 3 stays (5, 3), although 3 < 5.\<close>

theorem results_float_test_only_witness:
  "(3::real) < 5 \<and> (\<exists>self' ol ow. results integer_width = Inr self' \<and> lengths self' = Some ol \<and>
       widths self' = Some ow \<and> ol ! 0 = 5 \<and> ow ! 0 = PyInt 3)"
  using results_float_test_only [OF integer_width_fields, of 0 3]
  by simp

section \<open>Claim C10: lengths do not shrink\<close>

text \<open>
  Claim C10 says that \<^verbatim>\<open>results\<close> never decreases a length. A float width below zero
  is still smaller than the length and is added to it: the length 5 with the width -1.0
  is reported as 4.
\<close>

theorem results_negative_width_shortens:
  "lengths negative_width = Some [5] \<and> widths negative_width = Some [PyFloat (- 1)] \<and>
   (\<exists>self'. results negative_width = Inr self' \<and> lengths self' = Some [4] \<and>
      widths self' = Some [PyFloat (- 1)])"
  by (simp add: negative_width_def blank_def results_def py_getitem_def reconcile_def)

text \<open>
  Claim C10, amended. For every filament whose width is not a negative float, the length
  reported by \<^verbatim>\<open>results\<close> is greater than or equal to the length before: equal when
  the width is not a float or length \<open>\<le>\<close> width, greater by exactly the width otherwise.
  Both output lists have one entry per filament, as many as the filament count.
\<close>

theorem results_length_monotone:
  assumes "number_of_filaments self = Some n"
    and "lengths self = Some ls" and "widths self = Some ws"
    and "nat n \<le> length ls" and "nat n \<le> length ws" and "i < nat n"
    and "\<forall>x. ws ! i = PyFloat x \<longrightarrow> 0 \<le> x"
  shows "\<exists>self' ol ow. results self = Inr self' \<and> lengths self' = Some ol \<and> widths self' = Some ow \<and>
    length ol = nat n \<and> length ow = nat n \<and> ls ! i \<le> ol ! i \<and>
    (\<forall>x. ws ! i = PyFloat x \<and> x < ls ! i \<longrightarrow> ol ! i = ls ! i + x) \<and>
    (\<forall>x. ws ! i = PyFloat x \<and> ls ! i \<le> x \<longrightarrow> ol ! i = ls ! i) \<and>
    (\<not> isinstance_float (ws ! i) \<longrightarrow> ol ! i = ls ! i)"
  using assms by (auto simp add: results_run reconcile_def split: pyval.splits)

text \<open>The three filaments of before: 5 grows to 6, 2 and 7 stay.\<close>

theorem results_length_monotone_witness:
  "(\<exists>self' ol ow. results three_filaments = Inr self' \<and> lengths self' = Some ol \<and>
       widths self' = Some ow \<and> length ol = 3 \<and> length ow = 3 \<and> (5::real) \<le> ol ! 0 \<and> ol ! 0 = 5 + 1) \<and>
   (\<exists>self' ol ow. results three_filaments = Inr self' \<and> lengths self' = Some ol \<and>
       widths self' = Some ow \<and> (2::real) \<le> ol ! 1 \<and> ol ! 1 = 2) \<and>
   (\<exists>self' ol ow. results three_filaments = Inr self' \<and> lengths self' = Some ol \<and>
       widths self' = Some ow \<and> (7::real) \<le> ol ! 2 \<and> ol ! 2 = 7)"
  using results_length_monotone [OF three_filaments_fields, of 0]
    results_length_monotone [OF three_filaments_fields, of 1]
    results_length_monotone [OF three_filaments_fields, of 2]
  by (simp add: results_three_filaments)

end
